theory Spec2Isabelle
  imports Main "HOL-Library.Word"
begin

unbundle bit_operations_syntax

section \<open>The host interpreter\<close>

text \<open>
  The visitor of \<^verbatim>\<open>rdebug_visitor.cpp\<close> drives a host Lua state \<^verbatim>\<open>cL\<close> through the
  stack-based C API. The host is modelled as a record: the API stack of the paused hook
  (head of the list = top of the stack), the call frames with their locals, and a heap of
  tables, closures and full userdata addressed by natural numbers. A float carries its
  IEEE 754 binary64 bit pattern.
\<close>

type_synonym addr = nat

datatype lua_value =
    LNil
  | LBool bool
  | LInt int
  | LFlt int
  | LStr string
  | LLight nat
  | LTable addr
  | LFunc addr
  | LUdata addr
  | LThread addr

text \<open>The type tags of \<^verbatim>\<open>lua.h\<close>.\<close>

abbreviation LUA_TNONE :: int where "LUA_TNONE \<equiv> - 1"
abbreviation LUA_TNIL :: int where "LUA_TNIL \<equiv> 0"
abbreviation LUA_TBOOLEAN :: int where "LUA_TBOOLEAN \<equiv> 1"
abbreviation LUA_TLIGHTUSERDATA :: int where "LUA_TLIGHTUSERDATA \<equiv> 2"
abbreviation LUA_TNUMBER :: int where "LUA_TNUMBER \<equiv> 3"
abbreviation LUA_TSTRING :: int where "LUA_TSTRING \<equiv> 4"
abbreviation LUA_TTABLE :: int where "LUA_TTABLE \<equiv> 5"
abbreviation LUA_TFUNCTION :: int where "LUA_TFUNCTION \<equiv> 6"
abbreviation LUA_TUSERDATA :: int where "LUA_TUSERDATA \<equiv> 7"
abbreviation LUA_TTHREAD :: int where "LUA_TTHREAD \<equiv> 8"

abbreviation LUA_REGISTRYINDEX :: int where "LUA_REGISTRYINDEX \<equiv> - 1001000"
abbreviation LUA_RIDX_GLOBALS :: int where "LUA_RIDX_GLOBALS \<equiv> 2"

fun ttype :: "lua_value \<Rightarrow> int" where
  "ttype LNil = LUA_TNIL"
| "ttype (LBool b) = LUA_TBOOLEAN"
| "ttype (LInt i) = LUA_TNUMBER"
| "ttype (LFlt f) = LUA_TNUMBER"
| "ttype (LStr s) = LUA_TSTRING"
| "ttype (LLight p) = LUA_TLIGHTUSERDATA"
| "ttype (LTable a) = LUA_TTABLE"
| "ttype (LFunc a) = LUA_TFUNCTION"
| "ttype (LUdata a) = LUA_TUSERDATA"
| "ttype (LThread a) = LUA_TTHREAD"

text \<open>
  A table has an array part, a hash part (an array of buckets, \<open>None\<close> an empty one), the
  extra zero slot some host versions keep, and an optional metatable. A full userdata has
  its user values and an optional metatable; its block of raw bytes is kept in the store
  \<open>umem\<close> of the state, by address. \<open>gcbytes\<close> is the number of bytes the collector
  counts in use.
\<close>

record lua_table =
  tarray :: "lua_value list"
  tnode :: "(lua_value \<times> lua_value) option list"
  tzero :: "(lua_value \<times> lua_value) option"
  tmeta :: "addr option"

record lua_closure =
  upvals :: "(string \<times> lua_value) list"

record lua_udata =
  uvalues :: "lua_value list"
  umeta :: "addr option"

record lua_frame =
  ffunc :: addr
  flocals :: "(string \<times> lua_value) list"
  fvarargs :: "lua_value list"

record lua_State =
  stack :: "lua_value list"
  frames :: "lua_frame list"
  tables :: "addr \<Rightarrow> lua_table option"
  closures :: "addr \<Rightarrow> lua_closure option"
  udatas :: "addr \<Rightarrow> lua_udata option"
  umem :: "addr \<Rightarrow> string"
  registry :: addr
  type_mt :: "int \<Rightarrow> addr option"
  maxstack :: nat
  gcbytes :: nat

definition empty_table :: lua_table where
  "empty_table = \<lparr>tarray = [], tnode = [], tzero = None, tmeta = None\<rparr>"

definition the_table :: "lua_State \<Rightarrow> addr \<Rightarrow> lua_table" where
  "the_table h a = (case tables h a of Some t \<Rightarrow> t | None \<Rightarrow> empty_table)"

definition the_closure :: "lua_State \<Rightarrow> addr \<Rightarrow> lua_closure" where
  "the_closure h a = (case closures h a of Some c \<Rightarrow> c | None \<Rightarrow> \<lparr>upvals = []\<rparr>)"

definition the_udata :: "lua_State \<Rightarrow> addr \<Rightarrow> lua_udata" where
  "the_udata h a =
     (case udatas h a of Some u \<Rightarrow> u | None \<Rightarrow> \<lparr>uvalues = [], umeta = None\<rparr>)"

subsection \<open>Stack primitives of the C API\<close>

text \<open>
  An index is positive (counted from the bottom), negative (counted from the top) or the
  registry pseudo-index. \<open>index2value\<close> is \<open>None\<close> where the index names no slot.
\<close>

definition index2value :: "lua_State \<Rightarrow> int \<Rightarrow> lua_value option" where
  "index2value h idx =
     (if idx > 0 then
        (if nat idx \<le> length (stack h) then Some (stack h ! (length (stack h) - nat idx)) else None)
      else if idx = LUA_REGISTRYINDEX then Some (LTable (registry h))
      else if idx < 0 \<and> nat (- idx) \<le> length (stack h) then Some (stack h ! (nat (- idx) - 1))
      else None)"

definition lua_gettop :: "lua_State \<Rightarrow> int" where
  "lua_gettop h = int (length (stack h))"

definition push :: "lua_value \<Rightarrow> lua_State \<Rightarrow> lua_State" where
  "push v h = h\<lparr>stack := v # stack h\<rparr>"

definition lua_pop :: "nat \<Rightarrow> lua_State \<Rightarrow> lua_State" where
  "lua_pop n h = h\<lparr>stack := drop n (stack h)\<rparr>"

definition lua_settop :: "int \<Rightarrow> lua_State \<Rightarrow> lua_State" where
  "lua_settop idx h =
     (let len = length (stack h);
          new = (if idx \<ge> 0 then nat idx else len - (nat (- idx) - 1))
      in if new \<le> len then h\<lparr>stack := drop (len - new) (stack h)\<rparr>
         else h\<lparr>stack := replicate (new - len) LNil @ stack h\<rparr>)"

definition lua_type :: "lua_State \<Rightarrow> int \<Rightarrow> int" where
  "lua_type h idx = (case index2value h idx of Some v \<Rightarrow> ttype v | None \<Rightarrow> LUA_TNONE)"

definition lua_pushvalue :: "int \<Rightarrow> lua_State \<Rightarrow> lua_State" where
  "lua_pushvalue idx h = push (case index2value h idx of Some v \<Rightarrow> v | None \<Rightarrow> LNil) h"

definition lua_pushnil :: "lua_State \<Rightarrow> lua_State" where
  "lua_pushnil h = push LNil h"

definition lua_pushboolean :: "bool \<Rightarrow> lua_State \<Rightarrow> lua_State" where
  "lua_pushboolean b h = push (LBool b) h"

definition lua_pushinteger :: "int \<Rightarrow> lua_State \<Rightarrow> lua_State" where
  "lua_pushinteger i h = push (LInt i) h"

definition lua_pushlstring :: "string \<Rightarrow> lua_State \<Rightarrow> lua_State" where
  "lua_pushlstring s h = push (LStr s) h"

definition lua_pushlightuserdata :: "nat \<Rightarrow> lua_State \<Rightarrow> lua_State" where
  "lua_pushlightuserdata p h = push (LLight p) h"

text \<open>\<^verbatim>\<open>lua_remove\<close>, \<^verbatim>\<open>lua_insert\<close> and \<^verbatim>\<open>lua_replace\<close>, for the negative indices the
  visitor uses; \<open>k\<close> is the distance of the slot from the top.\<close>

definition lua_remove :: "int \<Rightarrow> lua_State \<Rightarrow> lua_State" where
  "lua_remove idx h =
     (let k = nat (- idx) - 1
      in h\<lparr>stack := take k (stack h) @ drop (Suc k) (stack h)\<rparr>)"

definition lua_insert :: "int \<Rightarrow> lua_State \<Rightarrow> lua_State" where
  "lua_insert idx h =
     (case stack h of
        [] \<Rightarrow> h
      | v # rest \<Rightarrow>
          (let k = nat (- idx) - 1
           in h\<lparr>stack := take k rest @ v # drop k rest\<rparr>))"

definition lua_replace :: "int \<Rightarrow> lua_State \<Rightarrow> lua_State" where
  "lua_replace idx h =
     (case stack h of
        [] \<Rightarrow> h
      | v # rest \<Rightarrow>
          (let k = nat (- idx) - 1
           in h\<lparr>stack := (if k = 0 then rest else rest[k - 1 := v])\<rparr>))"

definition lua_checkstack :: "lua_State \<Rightarrow> nat \<Rightarrow> bool" where
  "lua_checkstack h n = (length (stack h) + n \<le> maxstack h)"

subsection \<open>Tables\<close>

fun node_find :: "lua_value \<Rightarrow> (lua_value \<times> lua_value) option list \<Rightarrow> nat option" where
  "node_find k [] = None"
| "node_find k (e # es) =
     (if (case e of Some (k', v) \<Rightarrow> k' = k | None \<Rightarrow> False) then Some 0
      else map_option Suc (node_find k es))"

definition in_array :: "lua_table \<Rightarrow> lua_value \<Rightarrow> bool" where
  "in_array t k = (case k of LInt i \<Rightarrow> 1 \<le> i \<and> i \<le> int (length (tarray t)) | _ \<Rightarrow> False)"

definition array_pos :: "lua_value \<Rightarrow> nat" where
  "array_pos k = (case k of LInt i \<Rightarrow> nat (i - 1) | _ \<Rightarrow> 0)"

definition luaH_get :: "lua_table \<Rightarrow> lua_value \<Rightarrow> lua_value" where
  "luaH_get t k =
     (if in_array t k then tarray t ! array_pos k
      else (case node_find k (tnode t) of
              Some i \<Rightarrow> (case tnode t ! i of Some (k', v) \<Rightarrow> v | None \<Rightarrow> LNil)
            | None \<Rightarrow> LNil))"

fun first_free :: "(lua_value \<times> lua_value) option list \<Rightarrow> nat option" where
  "first_free [] = None"
| "first_free (e # es) = (if e = None then Some 0 else map_option Suc (first_free es))"

text \<open>A raw store: into the array part, over an existing bucket (storing nil empties
  it), or into a free bucket, the hash part growing by one bucket when it is full.\<close>

definition luaH_set :: "lua_table \<Rightarrow> lua_value \<Rightarrow> lua_value \<Rightarrow> lua_table" where
  "luaH_set t k v =
     (if in_array t k then t\<lparr>tarray := (tarray t)[array_pos k := v]\<rparr>
      else (case node_find k (tnode t) of
              Some i \<Rightarrow> t\<lparr>tnode := (tnode t)[i := (if v = LNil then None else Some (k, v))]\<rparr>
            | None \<Rightarrow>
                if v = LNil then t
                else (case first_free (tnode t) of
                        Some i \<Rightarrow> t\<lparr>tnode := (tnode t)[i := Some (k, v)]\<rparr>
                      | None \<Rightarrow> t\<lparr>tnode := tnode t @ [Some (k, v)]\<rparr>)))"

definition rawget_value :: "lua_State \<Rightarrow> lua_value \<Rightarrow> lua_value \<Rightarrow> lua_value" where
  "rawget_value h t k = (case t of LTable a \<Rightarrow> luaH_get (the_table h a) k | _ \<Rightarrow> LNil)"

definition rawset_value :: "lua_value \<Rightarrow> lua_value \<Rightarrow> lua_value \<Rightarrow> lua_State \<Rightarrow> lua_State" where
  "rawset_value t k v h =
     (case t of
        LTable a \<Rightarrow> h\<lparr>tables := (tables h)(a \<mapsto> luaH_set (the_table h a) k v)\<rparr>
      | _ \<Rightarrow> h)"

text \<open>\<^verbatim>\<open>lua_rawget(L, idx)\<close> replaces the key on top by the value stored under it;
  \<^verbatim>\<open>lua_rawset(L, idx)\<close> stores the top under the key below it and pops both.\<close>

definition lua_rawget :: "int \<Rightarrow> lua_State \<Rightarrow> lua_State" where
  "lua_rawget idx h =
     (case (index2value h idx, stack h) of
        (Some t, k # rest) \<Rightarrow> h\<lparr>stack := rawget_value h t k # rest\<rparr>
      | _ \<Rightarrow> h)"

definition lua_rawset :: "int \<Rightarrow> lua_State \<Rightarrow> lua_State" where
  "lua_rawset idx h =
     (case (index2value h idx, stack h) of
        (Some t, v # k # rest) \<Rightarrow> (rawset_value t k v h)\<lparr>stack := rest\<rparr>
      | _ \<Rightarrow> h)"

text \<open>\<^verbatim>\<open>lua::rawgeti\<close> pushes \<open>t[n]\<close> and returns the type of what it pushed.\<close>

definition rawgeti :: "int \<Rightarrow> int \<Rightarrow> lua_State \<Rightarrow> int \<times> lua_State" where
  "rawgeti idx n h =
     (let v = (case index2value h idx of Some t \<Rightarrow> rawget_value h t (LInt n) | None \<Rightarrow> LNil)
      in (ttype v, push v h))"

subsection \<open>Frames, closures, metatables and user values\<close>

text \<open>\<^verbatim>\<open>lua_getstack\<close> finds the activation record of a level (0 = the running function);
  it fails for a negative level and for one deeper than the call stack.\<close>

definition lua_getstack :: "lua_State \<Rightarrow> int \<Rightarrow> nat option" where
  "lua_getstack h level =
     (if 0 \<le> level \<and> nat level < length (frames h) then Some (nat level) else None)"

text \<open>The slot a local number names inside a frame: positive numbers name the locals
  (temporaries included), negative ones the extra arguments of a vararg function.\<close>

datatype local_slot = Local nat | Vararg nat

definition findlocal :: "lua_frame \<Rightarrow> int \<Rightarrow> (string \<times> local_slot) option" where
  "findlocal f n =
     (if n > 0 \<and> nat n \<le> length (flocals f) then Some (fst (flocals f ! (nat n - 1)), Local (nat n - 1))
      else if n < 0 \<and> nat (- n) \<le> length (fvarargs f) then Some (''(vararg)'', Vararg (nat (- n) - 1))
      else None)"

definition slot_value :: "lua_frame \<Rightarrow> local_slot \<Rightarrow> lua_value" where
  "slot_value f sl = (case sl of Local i \<Rightarrow> snd (flocals f ! i) | Vararg i \<Rightarrow> fvarargs f ! i)"

definition slot_update :: "lua_frame \<Rightarrow> local_slot \<Rightarrow> lua_value \<Rightarrow> lua_frame" where
  "slot_update f sl v =
     (case sl of
        Local i \<Rightarrow> f\<lparr>flocals := (flocals f)[i := (fst (flocals f ! i), v)]\<rparr>
      | Vararg i \<Rightarrow> f\<lparr>fvarargs := (fvarargs f)[i := v]\<rparr>)"

text \<open>\<^verbatim>\<open>lua_getlocal\<close> pushes the local and returns its name, or pushes nothing and
  returns NULL; \<^verbatim>\<open>lua_setlocal\<close> pops the top into the local, or pops nothing and returns
  NULL.\<close>

definition lua_getlocal :: "nat \<Rightarrow> int \<Rightarrow> lua_State \<Rightarrow> string option \<times> lua_State" where
  "lua_getlocal ar n h =
     (case findlocal (frames h ! ar) n of
        Some (name, sl) \<Rightarrow> (Some name, push (slot_value (frames h ! ar) sl) h)
      | None \<Rightarrow> (None, h))"

definition lua_setlocal :: "nat \<Rightarrow> int \<Rightarrow> lua_State \<Rightarrow> string option \<times> lua_State" where
  "lua_setlocal ar n h =
     (case (findlocal (frames h ! ar) n, stack h) of
        (Some (name, sl), v # rest) \<Rightarrow>
          (Some name, h\<lparr>stack := rest, frames := (frames h)[ar := slot_update (frames h ! ar) sl v]\<rparr>)
      | _ \<Rightarrow> (None, h))"

text \<open>\<^verbatim>\<open>lua_getinfo(L, "f", &ar)\<close> pushes the function of the frame and returns 1.\<close>

definition lua_getinfo_f :: "nat \<Rightarrow> lua_State \<Rightarrow> int \<times> lua_State" where
  "lua_getinfo_f ar h = (1, push (LFunc (ffunc (frames h ! ar))) h)"

definition func_upvals :: "lua_State \<Rightarrow> lua_value \<Rightarrow> (string \<times> lua_value) list" where
  "func_upvals h f = (case f of LFunc a \<Rightarrow> upvals (the_closure h a) | _ \<Rightarrow> [])"

definition lua_getupvalue :: "int \<Rightarrow> int \<Rightarrow> lua_State \<Rightarrow> string option \<times> lua_State" where
  "lua_getupvalue funcindex n h =
     (case index2value h funcindex of
        Some f \<Rightarrow>
          (if 1 \<le> n \<and> nat n \<le> length (func_upvals h f)
           then (Some (fst (func_upvals h f ! (nat n - 1))), push (snd (func_upvals h f ! (nat n - 1))) h)
           else (None, h))
      | None \<Rightarrow> (None, h))"

definition lua_setupvalue :: "int \<Rightarrow> int \<Rightarrow> lua_State \<Rightarrow> string option \<times> lua_State" where
  "lua_setupvalue funcindex n h =
     (case (index2value h funcindex, stack h) of
        (Some (LFunc a), v # rest) \<Rightarrow>
          (let ups = upvals (the_closure h a)
           in if 1 \<le> n \<and> nat n \<le> length ups
              then (Some (fst (ups ! (nat n - 1))),
                    h\<lparr>stack := rest,
                      closures := (closures h)(a \<mapsto> \<lparr>upvals = ups[nat n - 1 := (fst (ups ! (nat n - 1)), v)]\<rparr>)\<rparr>)
              else (None, h))
      | _ \<Rightarrow> (None, h))"

text \<open>The metatable of a value: a table's or a userdata's own one, otherwise the one
  shared by all values of the type.\<close>

definition metatable_of :: "lua_State \<Rightarrow> lua_value \<Rightarrow> addr option" where
  "metatable_of h v =
     (case v of
        LTable a \<Rightarrow> tmeta (the_table h a)
      | LUdata a \<Rightarrow> umeta (the_udata h a)
      | _ \<Rightarrow> type_mt h (ttype v))"

definition lua_getmetatable :: "int \<Rightarrow> lua_State \<Rightarrow> bool \<times> lua_State" where
  "lua_getmetatable objindex h =
     (case index2value h objindex of
        Some v \<Rightarrow> (case metatable_of h v of
                     Some m \<Rightarrow> (True, push (LTable m) h)
                   | None \<Rightarrow> (False, h))
      | None \<Rightarrow> (False, h))"

definition set_metatable_of :: "lua_value \<Rightarrow> addr option \<Rightarrow> lua_State \<Rightarrow> lua_State" where
  "set_metatable_of v m h =
     (case v of
        LTable a \<Rightarrow> h\<lparr>tables := (tables h)(a \<mapsto> (the_table h a)\<lparr>tmeta := m\<rparr>)\<rparr>
      | LUdata a \<Rightarrow> h\<lparr>udatas := (udatas h)(a \<mapsto> (the_udata h a)\<lparr>umeta := m\<rparr>)\<rparr>
      | _ \<Rightarrow> h\<lparr>type_mt := (type_mt h)(ttype v := m)\<rparr>)"

text \<open>\<^verbatim>\<open>lua_setmetatable\<close> pops a table or nil from the stack and installs it.\<close>

definition lua_setmetatable :: "int \<Rightarrow> lua_State \<Rightarrow> lua_State" where
  "lua_setmetatable objindex h =
     (case (index2value h objindex, stack h) of
        (Some v, m # rest) \<Rightarrow>
          (set_metatable_of v (case m of LTable a \<Rightarrow> Some a | _ \<Rightarrow> None) h)\<lparr>stack := rest\<rparr>
      | _ \<Rightarrow> h)"

text \<open>\<^verbatim>\<open>lua_getiuservalue\<close> pushes the n-th user value and returns its type; when the
  userdata does not have that value it pushes nil and returns \<open>LUA_TNONE\<close>.
  \<^verbatim>\<open>lua_setiuservalue\<close> pops the top in both cases and returns 0 when the userdata
  does not have that value.\<close>

definition udata_uvalues :: "lua_State \<Rightarrow> lua_value \<Rightarrow> lua_value list" where
  "udata_uvalues h u = (case u of LUdata a \<Rightarrow> uvalues (the_udata h a) | _ \<Rightarrow> [])"

definition lua_getiuservalue :: "int \<Rightarrow> int \<Rightarrow> lua_State \<Rightarrow> int \<times> lua_State" where
  "lua_getiuservalue idx n h =
     (let uvs = (case index2value h idx of Some u \<Rightarrow> udata_uvalues h u | None \<Rightarrow> [])
      in if n \<le> 0 \<or> nat n > length uvs then (LUA_TNONE, push LNil h)
         else (ttype (uvs ! (nat n - 1)), push (uvs ! (nat n - 1)) h))"

definition lua_setiuservalue :: "int \<Rightarrow> int \<Rightarrow> lua_State \<Rightarrow> int \<times> lua_State" where
  "lua_setiuservalue idx n h =
     (case (index2value h idx, stack h) of
        (Some (LUdata a), v # rest) \<Rightarrow>
          (let u = the_udata h a
           in if n \<le> 0 \<or> nat n > length (uvalues u) then (0, h\<lparr>stack := rest\<rparr>)
              else (1, h\<lparr>stack := rest,
                        udatas := (udatas h)(a \<mapsto> u\<lparr>uvalues := (uvalues u)[nat n - 1 := v]\<rparr>)\<rparr>))
      | _ \<Rightarrow> (0, lua_pop 1 h))"

subsection \<open>The table introspector\<close>

text \<open>
  Modelled from the spec: the functions of \<^verbatim>\<open>luadebug::table\<close> are declared in
  \<^verbatim>\<open>rdebug_table.h\<close>, which is not among the sources. \<open>hash_size\<close> is the number of
  buckets of the hash part. \<open>get_k\<close> and \<open>get_v\<close> push the key or the value of a bucket and
  fail, pushing nothing, when the bucket is empty or out of range. \<open>get_kv\<close> pushes both
  at once; \<^verbatim>\<open>tablehash\<close> takes the key from the top first (\<^verbatim>\<open>combine_key\<close>) and the
  value from below it, so the key is the top. \<open>get_zero\<close> does the same for the zero slot.
  \<open>set_v\<close> replaces the value of an occupied bucket by the top of the stack and pops it,
  and fails, popping nothing, otherwise.
\<close>

definition hash_size :: "lua_State \<Rightarrow> addr \<Rightarrow> nat" where
  "hash_size h t = length (tnode (the_table h t))"

definition bucket :: "lua_State \<Rightarrow> addr \<Rightarrow> int \<Rightarrow> (lua_value \<times> lua_value) option" where
  "bucket h t i =
     (if 0 \<le> i \<and> nat i < length (tnode (the_table h t)) then tnode (the_table h t) ! nat i
      else None)"

definition table_addr :: "lua_State \<Rightarrow> int \<Rightarrow> addr option" where
  "table_addr h idx = (case index2value h idx of Some (LTable a) \<Rightarrow> Some a | _ \<Rightarrow> None)"

definition get_k_at :: "addr \<Rightarrow> int \<Rightarrow> lua_State \<Rightarrow> bool \<times> lua_State" where
  "get_k_at t i h = (case bucket h t i of Some (k, v) \<Rightarrow> (True, push k h) | None \<Rightarrow> (False, h))"

definition get_v_at :: "addr \<Rightarrow> int \<Rightarrow> lua_State \<Rightarrow> bool \<times> lua_State" where
  "get_v_at t i h = (case bucket h t i of Some (k, v) \<Rightarrow> (True, push v h) | None \<Rightarrow> (False, h))"

definition get_k :: "int \<Rightarrow> int \<Rightarrow> lua_State \<Rightarrow> bool \<times> lua_State" where
  "get_k idx i h = (case table_addr h idx of Some t \<Rightarrow> get_k_at t i h | None \<Rightarrow> (False, h))"

definition get_v :: "int \<Rightarrow> int \<Rightarrow> lua_State \<Rightarrow> bool \<times> lua_State" where
  "get_v idx i h = (case table_addr h idx of Some t \<Rightarrow> get_v_at t i h | None \<Rightarrow> (False, h))"

definition get_kv :: "addr \<Rightarrow> int \<Rightarrow> lua_State \<Rightarrow> bool \<times> lua_State" where
  "get_kv t i h =
     (case bucket h t i of Some (k, v) \<Rightarrow> (True, push k (push v h)) | None \<Rightarrow> (False, h))"

definition get_zero :: "addr \<Rightarrow> lua_State \<Rightarrow> bool \<times> lua_State" where
  "get_zero t h =
     (case tzero (the_table h t) of Some (k, v) \<Rightarrow> (True, push k (push v h)) | None \<Rightarrow> (False, h))"

definition set_v :: "int \<Rightarrow> int \<Rightarrow> lua_State \<Rightarrow> bool \<times> lua_State" where
  "set_v idx i h =
     (case (table_addr h idx, stack h) of
        (Some t, v # rest) \<Rightarrow>
          (case bucket h t i of
             Some (k, old) \<Rightarrow>
               (True, h\<lparr>stack := rest,
                        tables := (tables h)(t \<mapsto> (the_table h t)\<lparr>tnode := (tnode (the_table h t))[nat i := Some (k, v)]\<rparr>)\<rparr>)
           | None \<Rightarrow> (False, h))
      | _ \<Rightarrow> (False, h))"

section \<open>Value paths\<close>

text \<open>
  \<^verbatim>\<open>struct value\<close> with its trailing bytes: a step of kind \<^verbatim>\<open>VAR\<close>, its payload, and
  for the composite kinds the inner path that follows it in the buffer. \<open>FRAME_LOCAL\<close>
  carries \<^verbatim>\<open>local.frame\<close> and \<^verbatim>\<open>local.n\<close>, \<open>INDEX_STR\<close> the key bytes (\<^verbatim>\<open>index\<close> is
  their length), every other kind \<^verbatim>\<open>index\<close>. A \<open>METATABLE\<close> step is followed by an inner
  path only when its \<^verbatim>\<open>index\<close> is \<open>LUA_TTABLE\<close> or \<open>LUA_TUSERDATA\<close>.
\<close>

datatype value_path =
    FRAME_LOCAL nat int
  | FRAME_FUNC int
  | UPVALUE int value_path
  | GLOBAL
  | REGISTRY
  | METATABLE int "value_path option"
  | USERVALUE int value_path
  | STACK int
  | INDEX_KEY int value_path
  | INDEX_VAL int value_path
  | INDEX_INT int value_path
  | INDEX_STR string value_path

text \<open>The receiver a \<open>METATABLE\<close> step of a primitive type conjures: nil, false, 0, the
  empty string or the null pointer; \<open>None\<close> for any other type tag.\<close>

definition push_receiver :: "int \<Rightarrow> lua_State \<Rightarrow> lua_State option" where
  "push_receiver t h =
     (if t = LUA_TNIL then Some (lua_pushnil h)
      else if t = LUA_TBOOLEAN then Some (lua_pushboolean False h)
      else if t = LUA_TNUMBER then Some (lua_pushinteger 0 h)
      else if t = LUA_TSTRING then Some (lua_pushlstring [] h)
      else if t = LUA_TLIGHTUSERDATA then Some (lua_pushlightuserdata 0 h)
      else None)"

definition eval_metatable :: "lua_State \<Rightarrow> int \<times> lua_State" where
  "eval_metatable h =
     (case lua_getmetatable (- 1) h of
        (True, h1) \<Rightarrow> (LUA_TTABLE, lua_replace (- 2) h1)
      | (False, h1) \<Rightarrow> (LUA_TNIL, lua_pushnil (lua_pop 1 h1)))"

text \<open>\<^verbatim>\<open>eval_value_\<close>: the type of the value the path denotes, pushed on the host stack, or
  \<open>LUA_TNONE\<close>. Every \<^verbatim>\<open>break\<close> of the source is a result \<open>(LUA_TNONE, h)\<close> with the host
  state \<open>h\<close> reached there.\<close>

fun eval_value :: "lua_State \<Rightarrow> value_path \<Rightarrow> int \<times> lua_State" where
  "eval_value h (FRAME_LOCAL frame n) =
     (case lua_getstack h (int frame) of
        None \<Rightarrow> (LUA_TNONE, h)
      | Some ar \<Rightarrow>
          (case lua_getlocal ar n h of
             (Some name, h1) \<Rightarrow> (lua_type h1 (- 1), h1)
           | (None, h1) \<Rightarrow> (LUA_TNONE, h1)))"
| "eval_value h (FRAME_FUNC index) =
     (case lua_getstack h index of
        None \<Rightarrow> (LUA_TNONE, h)
      | Some ar \<Rightarrow>
          (case lua_getinfo_f ar h of
             (r, h1) \<Rightarrow> if r = 0 then (LUA_TNONE, h1) else (LUA_TFUNCTION, h1)))"
| "eval_value h (INDEX_INT index inner) =
     (case eval_value h inner of
        (t, h1) \<Rightarrow>
          if t = LUA_TNONE then (LUA_TNONE, h1)
          else if t \<noteq> LUA_TTABLE then (LUA_TNONE, lua_pop 1 h1)
          else (let h2 = lua_pushinteger index h1;
                    h3 = lua_rawget (- 2) h2;
                    h4 = lua_replace (- 2) h3
                in (lua_type h4 (- 1), h4)))"
| "eval_value h (INDEX_STR key inner) =
     (case eval_value h inner of
        (t, h1) \<Rightarrow>
          if t = LUA_TNONE then (LUA_TNONE, h1)
          else if t \<noteq> LUA_TTABLE then (LUA_TNONE, lua_pop 1 h1)
          else (let h2 = lua_pushlstring key h1;
                    h3 = lua_rawget (- 2) h2;
                    h4 = lua_replace (- 2) h3
                in (lua_type h4 (- 1), h4)))"
| "eval_value h (INDEX_KEY index inner) =
     (case eval_value h inner of
        (t, h1) \<Rightarrow>
          if t = LUA_TNONE then (LUA_TNONE, h1)
          else if t \<noteq> LUA_TTABLE then (LUA_TNONE, lua_pop 1 h1)
          else (case get_k (- 1) index h1 of
                  (False, h2) \<Rightarrow> (LUA_TNONE, lua_pop 1 h2)
                | (True, h2) \<Rightarrow> (let h3 = lua_remove (- 2) h2 in (lua_type h3 (- 1), h3))))"
| "eval_value h (INDEX_VAL index inner) =
     (case eval_value h inner of
        (t, h1) \<Rightarrow>
          if t = LUA_TNONE then (LUA_TNONE, h1)
          else if t \<noteq> LUA_TTABLE then (LUA_TNONE, lua_pop 1 h1)
          else (case get_v (- 1) index h1 of
                  (False, h2) \<Rightarrow> (LUA_TNONE, lua_pop 1 h2)
                | (True, h2) \<Rightarrow> (let h3 = lua_remove (- 2) h2 in (lua_type h3 (- 1), h3))))"
| "eval_value h (UPVALUE index inner) =
     (case eval_value h inner of
        (t, h1) \<Rightarrow>
          if t = LUA_TNONE then (LUA_TNONE, h1)
          else if t \<noteq> LUA_TFUNCTION then (LUA_TNONE, lua_pop 1 h1)
          else (case lua_getupvalue (- 1) index h1 of
                  (Some name, h2) \<Rightarrow> (let h3 = lua_replace (- 2) h2 in (lua_type h3 (- 1), h3))
                | (None, h2) \<Rightarrow> (LUA_TNONE, lua_pop 1 h2)))"
| "eval_value h GLOBAL = rawgeti LUA_REGISTRYINDEX LUA_RIDX_GLOBALS h"
| "eval_value h REGISTRY = (LUA_TTABLE, lua_pushvalue LUA_REGISTRYINDEX h)"
| "eval_value h (METATABLE index inner) =
     (if index \<noteq> LUA_TTABLE \<and> index \<noteq> LUA_TUSERDATA then
        (case push_receiver index h of
           None \<Rightarrow> (LUA_TNONE, h)
         | Some h1 \<Rightarrow> eval_metatable h1)
      else
        (case inner of
           None \<Rightarrow> (LUA_TNONE, h)
         | Some w \<Rightarrow>
             (case eval_value h w of
                (t, h1) \<Rightarrow>
                  if t = LUA_TNONE then (LUA_TNONE, h1)
                  else if t \<noteq> LUA_TTABLE \<and> t \<noteq> LUA_TUSERDATA then (LUA_TNONE, lua_pop 1 h1)
                  else eval_metatable h1)))"
| "eval_value h (USERVALUE index inner) =
     (case eval_value h inner of
        (t, h1) \<Rightarrow>
          if t = LUA_TNONE then (LUA_TNONE, h1)
          else if t \<noteq> LUA_TUSERDATA then (LUA_TNONE, lua_pop 1 h1)
          else (case lua_getiuservalue (- 1) index h1 of
                  (t', h2) \<Rightarrow> (t', lua_replace (- 2) h2)))"
| "eval_value h (STACK index) =
     (let h1 = lua_pushvalue index h in (lua_type h1 (- 1), h1))"

text \<open>\<^verbatim>\<open>assign_value\<close>: every \<^verbatim>\<open>break\<close> of the source reaches
  \<^verbatim>\<open>lua_settop(cL, top - 1); return 0;\<close>, here \<open>assign_fail\<close>.\<close>

definition assign_fail :: "int \<Rightarrow> lua_State \<Rightarrow> int \<times> lua_State" where
  "assign_fail top0 h = (0, lua_settop (top0 - 1) h)"

definition assign_index :: "lua_value \<Rightarrow> int \<Rightarrow> int \<times> lua_State \<Rightarrow> int \<times> lua_State" where
  "assign_index key top0 r =
     (case r of
        (t, h1) \<Rightarrow>
          if t = LUA_TNONE then assign_fail top0 h1
          else if t \<noteq> LUA_TTABLE then assign_fail top0 h1
          else (let h2 = push key h1;
                    h3 = lua_pushvalue (- 3) h2;
                    h4 = lua_rawset (- 3) h3;
                    h5 = lua_pop 2 h4
                in (1, h5)))"

definition assign_metatable :: "int \<Rightarrow> lua_State \<Rightarrow> int \<times> lua_State" where
  "assign_metatable top0 h1 =
     (let h2 = lua_insert (- 2) h1;
          metattype = lua_type h2 (- 1)
      in if metattype \<noteq> LUA_TNIL \<and> metattype \<noteq> LUA_TTABLE then assign_fail top0 h2
         else (let h3 = lua_setmetatable (- 2) h2;
                   h4 = lua_pop 1 h3
               in (1, h4)))"

fun assign_value :: "value_path \<Rightarrow> lua_State \<Rightarrow> int \<times> lua_State" where
  "assign_value (FRAME_LOCAL frame n) h =
     (let top0 = lua_gettop h
      in case lua_getstack h (int frame) of
           None \<Rightarrow> assign_fail top0 h
         | Some ar \<Rightarrow>
             (case lua_setlocal ar n h of
                (Some name, h1) \<Rightarrow> (1, h1)
              | (None, h1) \<Rightarrow> assign_fail top0 h1))"
| "assign_value GLOBAL h = assign_fail (lua_gettop h) h"
| "assign_value REGISTRY h = assign_fail (lua_gettop h) h"
| "assign_value (FRAME_FUNC index) h = assign_fail (lua_gettop h) h"
| "assign_value (STACK index) h = assign_fail (lua_gettop h) h"
| "assign_value (INDEX_INT index inner) h =
     assign_index (LInt index) (lua_gettop h) (eval_value h inner)"
| "assign_value (INDEX_STR key inner) h =
     assign_index (LStr key) (lua_gettop h) (eval_value h inner)"
| "assign_value (INDEX_KEY index inner) h = assign_fail (lua_gettop h) h"
| "assign_value (INDEX_VAL index inner) h =
     (let top0 = lua_gettop h
      in case eval_value h inner of
           (t, h1) \<Rightarrow>
             if t = LUA_TNONE then assign_fail top0 h1
             else if t \<noteq> LUA_TTABLE then assign_fail top0 h1
             else (let h2 = lua_insert (- 2) h1
                   in case set_v (- 2) index h2 of
                        (False, h3) \<Rightarrow> assign_fail top0 h3
                      | (True, h3) \<Rightarrow> (1, lua_pop 1 h3)))"
| "assign_value (UPVALUE index inner) h =
     (let top0 = lua_gettop h
      in case eval_value h inner of
           (t, h1) \<Rightarrow>
             if t = LUA_TNONE then assign_fail top0 h1
             else if t \<noteq> LUA_TFUNCTION then assign_fail top0 h1
             else (let h2 = lua_insert (- 2) h1
                   in case lua_setupvalue (- 2) index h2 of
                        (Some name, h3) \<Rightarrow> (1, lua_pop 1 h3)
                      | (None, h3) \<Rightarrow> assign_fail top0 h3))"
| "assign_value (METATABLE index inner) h =
     (let top0 = lua_gettop h
      in if index \<noteq> LUA_TTABLE \<and> index \<noteq> LUA_TUSERDATA then
           (case push_receiver index h of
              None \<Rightarrow> (0, h)
            | Some h1 \<Rightarrow> assign_metatable top0 h1)
         else
           (case (case inner of None \<Rightarrow> (LUA_TNONE, h) | Some w \<Rightarrow> eval_value h w) of
              (t, h1) \<Rightarrow>
                if t \<noteq> LUA_TTABLE \<and> t \<noteq> LUA_TUSERDATA then assign_fail top0 h1
                else assign_metatable top0 h1))"
| "assign_value (USERVALUE index inner) h =
     (let top0 = lua_gettop h
      in case eval_value h inner of
           (t, h1) \<Rightarrow>
             if t \<noteq> LUA_TUSERDATA then assign_fail top0 h1
             else (let h2 = lua_insert (- 2) h1
                   in case lua_setiuservalue (- 2) index h2 of
                        (r, h3) \<Rightarrow> (1, lua_pop 1 h3)))"

section \<open>The debugger side\<close>

text \<open>
  Values of the debugger state \<^verbatim>\<open>L\<close>. Every full userdata the visitor handles there is a
  value path; a table is kept by value, as the list of its entries in the order they were
  first stored. The debugger stack is a list whose head is the top.
\<close>

datatype dbg_value =
    DNil
  | DBool bool
  | DInt int
  | DFlt int
  | DStr string
  | DLight nat
  | DUserdata value_path
  | DTable "(int \<times> dbg_value) list"
  | DFunction nat

fun luadbg_type :: "dbg_value \<Rightarrow> int" where
  "luadbg_type DNil = LUA_TNIL"
| "luadbg_type (DBool b) = LUA_TBOOLEAN"
| "luadbg_type (DInt i) = LUA_TNUMBER"
| "luadbg_type (DFlt f) = LUA_TNUMBER"
| "luadbg_type (DStr s) = LUA_TSTRING"
| "luadbg_type (DLight p) = LUA_TLIGHTUSERDATA"
| "luadbg_type (DUserdata v) = LUA_TUSERDATA"
| "luadbg_type (DTable kvs) = LUA_TTABLE"
| "luadbg_type (DFunction f) = LUA_TFUNCTION"

text \<open>The errors \<^verbatim>\<open>luadbgL_error\<close> and the argument checks raise in the debugger.\<close>

datatype error =
    StackOverflow
  | NeedUserdata
  | InvalidValueType int
  | BadArgument nat
  | InvalidOption
  | NeedFunctionRef int
  | NeedLevelOrFunctionRef int

definition luadbg_index :: "dbg_value list \<Rightarrow> int \<Rightarrow> dbg_value option" where
  "luadbg_index L idx =
     (if idx > 0 then (if nat idx \<le> length L then Some (L ! (length L - nat idx)) else None)
      else if idx < 0 \<and> nat (- idx) \<le> length L then Some (L ! (nat (- idx) - 1))
      else None)"

definition luadbg_pushvalue :: "int \<Rightarrow> dbg_value list \<Rightarrow> dbg_value list" where
  "luadbg_pushvalue idx L = (case luadbg_index L idx of Some x \<Rightarrow> x | None \<Rightarrow> DNil) # L"

fun table_store :: "int \<Rightarrow> dbg_value \<Rightarrow> (int \<times> dbg_value) list \<Rightarrow> (int \<times> dbg_value) list" where
  "table_store n x [] = [(n, x)]"
| "table_store n x (e # es) = (if fst e = n then (n, x) # es else e # table_store n x es)"

text \<open>\<^verbatim>\<open>luadbg_rawseti(L, idx, n)\<close> pops the top and stores it under \<open>n\<close> in the table at
  the (negative) index \<open>idx\<close>.\<close>

definition luadbg_rawseti :: "int \<Rightarrow> int \<Rightarrow> dbg_value list \<Rightarrow> dbg_value list" where
  "luadbg_rawseti idx n L =
     (case L of
        [] \<Rightarrow> []
      | x # rest \<Rightarrow>
          (let k = nat (- idx) - 2
           in if k < length rest
              then (case rest ! k of
                      DTable kvs \<Rightarrow> rest[k := DTable (table_store n x kvs)]
                    | _ \<Rightarrow> rest)
              else rest))"

text \<open>\<^verbatim>\<open>create_value(L, type, t)\<close> pushes a new path: a step \<open>mk\<close> in front of the path
  held at index \<open>t\<close> of the debugger stack. The source dereferences whatever
  \<^verbatim>\<open>luadbg_touserdata\<close> returns; its callers have a path at that index.\<close>

definition create_value :: "(value_path \<Rightarrow> value_path) \<Rightarrow> int \<Rightarrow> dbg_value list \<Rightarrow> dbg_value list" where
  "create_value mk t L =
     (case luadbg_index L t of
        Some (DUserdata f) \<Rightarrow> DUserdata (mk f) # L
      | _ \<Rightarrow> L)"

subsection \<open>Copying between the interpreters\<close>

fun copy_prim :: "lua_value \<Rightarrow> dbg_value option" where
  "copy_prim LNil = Some DNil"
| "copy_prim (LBool b) = Some (DBool b)"
| "copy_prim (LInt i) = Some (DInt i)"
| "copy_prim (LFlt f) = Some (DFlt f)"
| "copy_prim (LStr s) = Some (DStr s)"
| "copy_prim (LLight p) = Some (DLight p)"
| "copy_prim v = None"

text \<open>\<^verbatim>\<open>copy_toR\<close> copies the top of the host stack onto the debugger stack when it is a
  primitive and returns its type, \<open>LUA_TNONE\<close> otherwise.\<close>

definition copy_toR :: "lua_State \<Rightarrow> dbg_value list \<Rightarrow> int \<times> dbg_value list" where
  "copy_toR h L =
     (case index2value h (- 1) of
        Some v \<Rightarrow> (case copy_prim v of Some d \<Rightarrow> (ttype v, d # L) | None \<Rightarrow> (LUA_TNONE, L))
      | None \<Rightarrow> (LUA_TNONE, L))"

text \<open>\<^verbatim>\<open>copy_fromR\<close>, applied to the value \<open>x\<close> on top of the debugger stack: a primitive
  is pushed on the host stack, a path is evaluated there.\<close>

definition copy_fromR :: "dbg_value \<Rightarrow> lua_State \<Rightarrow> error + (int \<times> lua_State)" where
  "copy_fromR x h =
     (if \<not> lua_checkstack h 1 then Inl StackOverflow
      else (case x of
              DNil \<Rightarrow> Inr (LUA_TNIL, lua_pushnil h)
            | DBool b \<Rightarrow> Inr (LUA_TBOOLEAN, lua_pushboolean b h)
            | DInt i \<Rightarrow> Inr (LUA_TNUMBER, lua_pushinteger i h)
            | DFlt f \<Rightarrow> Inr (LUA_TNUMBER, push (LFlt f) h)
            | DStr s \<Rightarrow> Inr (LUA_TSTRING, lua_pushlstring s h)
            | DLight p \<Rightarrow> Inr (LUA_TLIGHTUSERDATA, lua_pushlightuserdata p h)
            | DUserdata v \<Rightarrow>
                if \<not> lua_checkstack h 3 then Inl StackOverflow else Inr (eval_value h v)
            | _ \<Rightarrow> Inr (LUA_TNONE, h)))"

subsection \<open>Table enumeration\<close>

definition combine_key :: "int \<Rightarrow> int \<Rightarrow> dbg_value list \<Rightarrow> lua_State \<Rightarrow> dbg_value list \<times> lua_State" where
  "combine_key t index L h =
     (case copy_toR h L of
        (ty, L1) \<Rightarrow>
          if ty \<noteq> LUA_TNONE then (L1, lua_pop 1 h)
          else (create_value (INDEX_KEY index) t L1, lua_pop 1 h))"

definition combine_val :: "int \<Rightarrow> int \<Rightarrow> bool \<Rightarrow> dbg_value list \<Rightarrow> lua_State \<Rightarrow> dbg_value list \<times> lua_State" where
  "combine_val t index ref L h =
     (if ref then
        (let L1 = create_value (INDEX_VAL index) t L
         in case copy_toR h L1 of
              (ty, L2) \<Rightarrow> ((if ty = LUA_TNONE then luadbg_pushvalue (- 1) L2 else L2), lua_pop 1 h))
      else
        (case copy_toR h L of
           (ty, L1) \<Rightarrow>
             ((if ty = LUA_TNONE then create_value (INDEX_VAL index) t L1 else L1), lua_pop 1 h)))"

text \<open>The body both loops of \<^verbatim>\<open>tablehash\<close> share, entered with the key on top of the host
  stack and the value below it; \<open>n\<close> counts the positions filled so far.\<close>

definition tablehash_entry :: "bool \<Rightarrow> int \<Rightarrow> int \<Rightarrow> dbg_value list \<Rightarrow> lua_State \<Rightarrow> int \<times> dbg_value list \<times> lua_State" where
  "tablehash_entry ref i n L h =
     (case combine_key 1 i L h of
        (L1, h1) \<Rightarrow>
          (let L2 = luadbg_rawseti (- 2) (n + 1) L1
           in case combine_val 1 i ref L2 h1 of
                (L3, h2) \<Rightarrow>
                  if ref
                  then (n + 3, luadbg_rawseti (- 2) (n + 3) (luadbg_rawseti (- 3) (n + 2) L3), h2)
                  else (n + 2, luadbg_rawseti (- 2) (n + 2) L3, h2)))"

text \<open>The loop over the buckets. The first component of the result tells whether the
  loop returned from \<^verbatim>\<open>tablehash\<close> (\<open>maxn\<close> exhausted).\<close>

function tablehash_loop ::
  "bool \<Rightarrow> addr \<Rightarrow> nat \<Rightarrow> nat \<Rightarrow> int \<Rightarrow> int \<Rightarrow> dbg_value list \<Rightarrow> lua_State
     \<Rightarrow> bool \<times> int \<times> int \<times> dbg_value list \<times> lua_State" where
  "tablehash_loop ref t hsize i maxn n L h =
     (if i < hsize then
        (case get_kv t (int i) h of
           (True, h1) \<Rightarrow>
             if maxn - 1 < 0 then (True, maxn - 1, n, L, lua_pop 3 h1)
             else (case tablehash_entry ref (int i) n L h1 of
                     (n', L', h2) \<Rightarrow> tablehash_loop ref t hsize (Suc i) (maxn - 1) n' L' h2)
         | (False, h1) \<Rightarrow> tablehash_loop ref t hsize (Suc i) maxn n L h1)
      else (False, maxn, n, L, h))"
  by pat_completeness auto
termination
  by (relation "measure (\<lambda>(ref, t, hsize, i, maxn, n, L, h). hsize - i)") auto

declare tablehash_loop.simps [simp del]

text \<open>\<^verbatim>\<open>tablehash(L, ref)\<close> with the table path \<open>arg\<close> and the optional \<^verbatim>\<open>maxn\<close>.
  The result is the list of values returned to the debugger and the host state.\<close>

definition tablehash :: "bool \<Rightarrow> dbg_value \<Rightarrow> int option \<Rightarrow> lua_State \<Rightarrow> error + (dbg_value list \<times> lua_State)" where
  "tablehash ref arg maxn_arg h =
     (let maxn = (case maxn_arg of None \<Rightarrow> 4294967295 | Some m \<Rightarrow> m)
      in if \<not> lua_checkstack h 4 then Inl StackOverflow
         else (case copy_fromR arg h of
                 Inl e \<Rightarrow> Inl e
               | Inr (ty, h1) \<Rightarrow>
                   if ty \<noteq> LUA_TTABLE then Inr ([], lua_pop 1 h1)
                   else (case table_addr h1 (- 1) of
                           None \<Rightarrow> Inr ([], lua_pop 1 h1)
                         | Some t \<Rightarrow>
                             (let L1 = [DTable [], arg];
                                  hsize = hash_size h1 t
                              in case tablehash_loop ref t hsize 0 maxn 0 L1 h1 of
                                   (True, maxn', n, L2, h2) \<Rightarrow> Inr (take 1 L2, h2)
                                 | (False, maxn', n, L2, h2) \<Rightarrow>
                                     (case get_zero t h2 of
                                        (True, h3) \<Rightarrow>
                                          if maxn' - 1 < 0 then Inr (take 1 L2, lua_pop 3 h3)
                                          else (case tablehash_entry ref (int hsize) n L2 h3 of
                                                  (n', L3, h4) \<Rightarrow> Inr (take 1 L3, lua_pop 1 h4))
                                      | (False, h3) \<Rightarrow> Inr (take 1 L2, lua_pop 1 h3))))))"

subsection \<open>Userdata memory\<close>

text \<open>\<^verbatim>\<open>memcpy(memory + off, src, n)\<close> on the block \<open>mem\<close>.\<close>

definition memcpy :: "string \<Rightarrow> nat \<Rightarrow> string \<Rightarrow> nat \<Rightarrow> string" where
  "memcpy mem off src n = take off mem @ take n src @ drop (off + n) mem"

text \<open>\<^verbatim>\<open>lclient_udread\<close> and \<^verbatim>\<open>lclient_udwrite\<close>. \<^verbatim>\<open>offset\<close> and \<^verbatim>\<open>count\<close> are 64-bit
  integers of the debugger, the lengths are \<^verbatim>\<open>size_t\<close>; \<open><s\<close> and \<open>\<le>s\<close> compare as signed,
  \<open><\<close> and \<open>\<le>\<close> as unsigned values. The test for a full userdata and \<^verbatim>\<open>lua_touserdata\<close>
  are one pattern match on the top of the host stack.\<close>

definition lclient_udread :: "dbg_value \<Rightarrow> 64 word \<Rightarrow> 64 word \<Rightarrow> lua_State \<Rightarrow> error + (dbg_value list \<times> lua_State)" where
  "lclient_udread p offset count h =
     (case copy_fromR p h of
        Inl e \<Rightarrow> Inl e
      | Inr (t, h1) \<Rightarrow>
          if t = LUA_TNONE then Inl NeedUserdata
          else (case index2value h1 (- 1) of
                  Some (LUdata a) \<Rightarrow>
                    (let memory = umem h1 a;
                         len = (word_of_nat (length memory) :: 64 word)
                     in if offset <s 0 \<or> len \<le> offset \<or> count \<le>s 0 then Inr ([], lua_pop 1 h1)
                        else (let count' = (if len < offset + count then len - offset else count)
                              in Inr ([DStr (take (unat count') (drop (unat offset) memory))],
                                      lua_pop 1 h1)))
                | _ \<Rightarrow> Inl NeedUserdata))"

definition lclient_udwrite :: "dbg_value \<Rightarrow> 64 word \<Rightarrow> string \<Rightarrow> bool \<Rightarrow> lua_State \<Rightarrow> error + (dbg_value list \<times> lua_State)" where
  "lclient_udwrite p offset data allowPartial h =
     (let count = (word_of_nat (length data) :: 64 word)
      in case copy_fromR p h of
           Inl e \<Rightarrow> Inl e
         | Inr (t, h1) \<Rightarrow>
             if t = LUA_TNONE then Inl NeedUserdata
             else (case index2value h1 (- 1) of
                     Some (LUdata a) \<Rightarrow>
                       (let memory = umem h1 a;
                            len = (word_of_nat (length memory) :: 64 word)
                        in if allowPartial then
                             (if offset <s 0 \<or> len \<le> offset then Inr ([DInt 0], lua_pop 1 h1)
                              else (let bytesWritten = min count (len - offset);
                                        h2 = h1\<lparr>umem := (umem h1)(a := memcpy memory (unat offset) data (unat bytesWritten))\<rparr>
                                    in Inr ([DInt (sint bytesWritten)], lua_pop 1 h2)))
                           else
                             (if offset <s 0 \<or> len < offset + count then Inr ([], lua_pop 1 h1)
                              else (let h2 = h1\<lparr>umem := (umem h1)(a := memcpy memory (unat offset) data (unat count))\<rparr>
                                    in Inr ([DBool True], lua_pop 1 h2))))
                   | _ \<Rightarrow> Inl NeedUserdata))"

subsection \<open>Assignment\<close>

text \<open>\<^verbatim>\<open>lclient_assign\<close> with the target \<open>ref\<close> (argument 1) and the new value
  (argument 2, the top of the debugger stack after \<^verbatim>\<open>luadbg_settop(L, 2)\<close>).\<close>

definition lclient_assign :: "dbg_value \<Rightarrow> dbg_value \<Rightarrow> lua_State \<Rightarrow> error + (dbg_value list \<times> lua_State)" where
  "lclient_assign ref newvalue h =
     (if \<not> lua_checkstack h 2 then Inl StackOverflow
      else (case copy_fromR newvalue h of
              Inl e \<Rightarrow> Inl e
            | Inr (t, h1) \<Rightarrow>
                (case (if t = LUA_TNONE
                       then (if luadbg_type newvalue \<noteq> LUA_TUSERDATA
                             then Inl (InvalidValueType (luadbg_type newvalue))
                             else Inr (lua_pushnil h1))
                       else Inr h1) of
                   Inl e \<Rightarrow> Inl e
                 | Inr h2 \<Rightarrow>
                     if \<not> lua_checkstack h2 3 then Inl StackOverflow
                     else (case ref of
                             DUserdata v \<Rightarrow>
                               (case assign_value v h2 of (r, h3) \<Rightarrow> Inr ([DBool (r \<noteq> 0)], h3))
                           | _ \<Rightarrow> Inl (BadArgument 1)))))"

subsection \<open>Frame information\<close>

text \<open>
  The option letters of \<^verbatim>\<open>lclient_getinfo\<close>. The loops of the source walk the options as
  a C string, up to the first NUL byte: \<open>c_str\<close>. The letters \<^verbatim>\<open>u\<close>, \<^verbatim>\<open>t\<close> and \<^verbatim>\<open>r\<close>
  are compiled in for the host version modelled here, Lua 5.4.
\<close>

abbreviation LUA_VERSION_NUM :: nat where "LUA_VERSION_NUM \<equiv> 504"

definition c_str :: "string \<Rightarrow> string" where
  "c_str s = takeWhile (\<lambda>c. c \<noteq> CHR 0x00) s"

fun scan_options :: "string \<Rightarrow> bool \<Rightarrow> int \<Rightarrow> (bool \<times> int) option" where
  "scan_options [] hasf sz = Some (hasf, sz)"
| "scan_options (c # cs) hasf sz =
     (if c = CHR ''S'' then scan_options cs hasf (sz + 5)
      else if c = CHR ''l'' then scan_options cs hasf (sz + 1)
      else if c = CHR ''n'' then scan_options cs hasf (sz + 2)
      else if c = CHR ''f'' then scan_options cs True (sz + 1)
      else if c = CHR ''u'' \<and> LUA_VERSION_NUM \<ge> 502 then scan_options cs hasf (sz + 1)
      else if c = CHR ''t'' \<and> LUA_VERSION_NUM \<ge> 502 then scan_options cs hasf (sz + 1)
      else if c = CHR ''r'' \<and> LUA_VERSION_NUM \<ge> 504 then scan_options cs hasf (sz + 2)
      else None)"

text \<open>The names of the fields the second loop stores, in order.\<close>

fun info_fields :: "string \<Rightarrow> string list" where
  "info_fields [] = []"
| "info_fields (c # cs) =
     (if c = CHR ''S'' then [''source'', ''short_src'', ''linedefined'', ''lastlinedefined'', ''what'']
      else if c = CHR ''l'' then [''currentline'']
      else if c = CHR ''n'' then [''name'', ''namewhat'']
      else if c = CHR ''f'' then [''func'']
      else if c = CHR ''u'' \<and> LUA_VERSION_NUM \<ge> 502 then [''nparams'']
      else if c = CHR ''t'' \<and> LUA_VERSION_NUM \<ge> 502 then [''istailcall'']
      else if c = CHR ''r'' \<and> LUA_VERSION_NUM \<ge> 504 then [''ftransfer'', ''ntransfer'']
      else []) @ info_fields cs"

text \<open>\<^verbatim>\<open>lua_getinfo\<close> on an activation record pushes the function when \<^verbatim>\<open>f\<close> is asked
  for; with \<^verbatim>\<open>>\<close> it pops the function it describes. Both return 1 on the letters that
  passed the scan.\<close>

definition lua_getinfo :: "nat \<Rightarrow> string \<Rightarrow> lua_State \<Rightarrow> int \<times> lua_State" where
  "lua_getinfo ar what h =
     (1, if CHR ''f'' \<in> set what then push (LFunc (ffunc (frames h ! ar))) h else h)"

definition lua_getinfo_func :: "string \<Rightarrow> lua_State \<Rightarrow> int \<times> lua_State" where
  "lua_getinfo_func what h = (1, lua_pop 1 h)"

text \<open>The integer a float converts to, when it has an exact integer value within the
  64-bit range (the conversion \<^verbatim>\<open>luadbgL_checkinteger\<close> accepts): sign bit, 11 bits of
  exponent, 52 bits of fraction; infinities and NaNs have the exponent 2047.\<close>

definition flt_tointeger :: "int \<Rightarrow> int option" where
  "flt_tointeger b =
     (let bits = b mod 2 ^ 64;
          neg = (bits div 2 ^ 63 = 1);
          e = (bits div 2 ^ 52) mod 2048;
          f = bits mod 2 ^ 52
      in if e = 2047 then None
         else if e = 0 then (if f = 0 then Some 0 else None)
         else (let m = 2 ^ 52 + f
               in if e \<ge> 1075 then
                    (let v = m * 2 ^ nat (e - 1075)
                     in if neg then (if v \<le> 2 ^ 63 then Some (- v) else None)
                        else (if v < 2 ^ 63 then Some v else None))
                  else
                    (let d = 2 ^ nat (1075 - e)
                     in if m mod d = 0 then Some (if neg then - (m div d) else m div d)
                        else None)))"

definition luadbgL_checkinteger :: "nat \<Rightarrow> dbg_value \<Rightarrow> error + int" where
  "luadbgL_checkinteger arg x =
     (case x of
        DInt i \<Rightarrow> Inr i
      | DFlt b \<Rightarrow> (case flt_tointeger b of Some i \<Rightarrow> Inr i | None \<Rightarrow> Inl (BadArgument arg))
      | _ \<Rightarrow> Inl (BadArgument arg))"

text \<open>The cast \<^verbatim>\<open>(int)\<close> of a 64-bit integer.\<close>

definition int_cast :: "int \<Rightarrow> int" where
  "int_cast i = sint (word_of_int i :: 32 word)"

text \<open>\<^verbatim>\<open>char what[8]; what[0] = '>'; strcpy(what + 1, options);\<close> The buffer receives
  \<^verbatim>\<open>>\<close>, the bytes of the options up to their first NUL, and a NUL. \<open>None\<close> when these
  are more than the 8 bytes of the buffer: \<^verbatim>\<open>strcpy\<close> then writes past its end.\<close>

definition what_buffer :: "string \<Rightarrow> string option" where
  "what_buffer options =
     (let what = CHR ''>'' # c_str options
      in if length what + 1 \<le> 8 then Some what else None)"

text \<open>What a call of \<^verbatim>\<open>lclient_getinfo\<close> comes to: it raises an error, it overruns its
  buffer (after which the behaviour of the program is undefined), or it returns, with
  the list of the fields it has stored into the table it returns (\<open>None\<close> when it returns
  nothing) and the host state.\<close>

datatype getinfo_result =
    Raised error
  | Overrun
  | Returned "string list option" lua_State

text \<open>\<^verbatim>\<open>lclient_getinfo\<close> with the first argument and the options. The optional third
  argument, the table to fill, does not matter to the fields that are stored and is
  left out.\<close>

definition lclient_getinfo :: "dbg_value \<Rightarrow> string \<Rightarrow> lua_State \<Rightarrow> getinfo_result" where
  "lclient_getinfo a1 options h =
     (if length options > 7 then Raised InvalidOption
      else (case scan_options (c_str options) False 0 of
              None \<Rightarrow> Raised InvalidOption
            | Some (hasf, sz) \<Rightarrow>
                if luadbg_type a1 = LUA_TNUMBER then
                  (case luadbgL_checkinteger 1 a1 of
                     Inl e \<Rightarrow> Raised e
                   | Inr i \<Rightarrow>
                       (case lua_getstack h (int_cast i) of
                          None \<Rightarrow> Returned None h
                        | Some ar \<Rightarrow>
                            (case lua_getinfo ar (c_str options) h of
                               (r, h1) \<Rightarrow>
                                 if r = 0 then Returned None h1
                                 else Returned (Some (info_fields (c_str options)))
                                        (if hasf then lua_pop 1 h1 else h1))))
                else if luadbg_type a1 = LUA_TUSERDATA then
                  (case copy_fromR a1 h of
                     Inl e \<Rightarrow> Raised e
                   | Inr (t, h1) \<Rightarrow>
                       if t \<noteq> LUA_TFUNCTION then Raised (NeedFunctionRef t)
                       else if hasf then Raised InvalidOption
                       else (case what_buffer options of
                               None \<Rightarrow> Overrun
                             | Some what \<Rightarrow>
                                 (case lua_getinfo_func what h1 of
                                    (r, h2) \<Rightarrow>
                                      if r = 0 then Returned None h2
                                      else Returned (Some (info_fields (c_str options))) h2)))
                else Raised (NeedLevelOrFunctionRef (luadbg_type a1))))"

subsection \<open>The collector's count\<close>

text \<open>\<^verbatim>\<open>lua_gc(cL, LUA_GCCOUNT, 0)\<close> is the memory in use in Kbytes, \<^verbatim>\<open>LUA_GCCOUNTB\<close> the
  remainder of its division by 1024; both are C ints.\<close>

definition lua_gc_count :: "lua_State \<Rightarrow> 32 word" where
  "lua_gc_count h = word_of_nat (gcbytes h div 1024)"

definition lua_gc_countb :: "lua_State \<Rightarrow> 32 word" where
  "lua_gc_countb h = word_of_nat (gcbytes h mod 1024)"

definition lclient_gccount :: "lua_State \<Rightarrow> dbg_value" where
  "lclient_gccount h =
     (let k = lua_gc_count h;
          b = lua_gc_countb h;
          m = (push_bit 10 (scast k :: 64 word)) AND (scast b :: 64 word)
      in DInt (sint m))"

subsection \<open>The enumeration, described\<close>

text \<open>
  The entries of the hash part of table \<open>t\<close> as \<^verbatim>\<open>tablehash\<close> meets them: the occupied
  buckets in bucket order, each with its index, then the zero slot under the index
  \<open>hash_size\<close>. \<open>key_item\<close> and \<open>val_item\<close> are what the debugger receives for a key and a
  value: the copy of a primitive, otherwise an \<open>INDEX_KEY\<close> or \<open>INDEX_VAL\<close> path through
  the bucket. \<open>entry_items\<close> is the group of positions one entry fills, \<open>array_of\<close> the
  table that holds a list of values at the positions 1, 2, ... \<open>claimed_ref_items\<close> is the
  order of the Ref form in the words of the specification: key path, value path, value
  or its path.
\<close>

definition bucket_entries :: "lua_State \<Rightarrow> addr \<Rightarrow> nat \<Rightarrow> nat \<Rightarrow> (int \<times> lua_value \<times> lua_value) list" where
  "bucket_entries h t i hsize =
     concat (map (\<lambda>j. case bucket h t (int j) of Some (k, v) \<Rightarrow> [(int j, k, v)] | None \<Rightarrow> [])
                 [i..<hsize])"

definition zero_entries :: "lua_State \<Rightarrow> addr \<Rightarrow> (int \<times> lua_value \<times> lua_value) list" where
  "zero_entries h t =
     (case tzero (the_table h t) of Some (k, v) \<Rightarrow> [(int (hash_size h t), k, v)] | None \<Rightarrow> [])"

definition hash_entries :: "lua_State \<Rightarrow> addr \<Rightarrow> (int \<times> lua_value \<times> lua_value) list" where
  "hash_entries h t = bucket_entries h t 0 (hash_size h t) @ zero_entries h t"

definition hash_entry_count :: "lua_State \<Rightarrow> addr \<Rightarrow> nat" where
  "hash_entry_count h t = length (hash_entries h t)"

definition key_item :: "value_path \<Rightarrow> int \<times> lua_value \<times> lua_value \<Rightarrow> dbg_value" where
  "key_item p e =
     (case e of (i, k, v) \<Rightarrow> (case copy_prim k of Some d \<Rightarrow> d | None \<Rightarrow> DUserdata (INDEX_KEY i p)))"

definition val_item :: "value_path \<Rightarrow> int \<times> lua_value \<times> lua_value \<Rightarrow> dbg_value" where
  "val_item p e =
     (case e of (i, k, v) \<Rightarrow> (case copy_prim v of Some d \<Rightarrow> d | None \<Rightarrow> DUserdata (INDEX_VAL i p)))"

definition entry_items :: "bool \<Rightarrow> value_path \<Rightarrow> int \<times> lua_value \<times> lua_value \<Rightarrow> dbg_value list" where
  "entry_items ref p e =
     (if ref then [key_item p e, val_item p e, DUserdata (INDEX_VAL (fst e) p)]
      else [key_item p e, val_item p e])"

definition claimed_ref_items :: "value_path \<Rightarrow> int \<times> lua_value \<times> lua_value \<Rightarrow> dbg_value list" where
  "claimed_ref_items p e =
     [DUserdata (INDEX_KEY (fst e) p), DUserdata (INDEX_VAL (fst e) p), val_item p e]"

definition array_of :: "dbg_value list \<Rightarrow> (int \<times> dbg_value) list" where
  "array_of xs = zip (map (\<lambda>i. int i + 1) [0..<length xs]) xs"

subsection \<open>The target of an assignment, described\<close>

text \<open>A place of the host state that an assignment can store into: a local slot of a frame,
  the field of a table under a key, the value of a bucket of a table's hash part, an
  upvalue of a closure, the metatable of a value, a user value of a userdata.\<close>

datatype location =
    LocLocal nat local_slot
  | LocField addr lua_value
  | LocBucket addr int
  | LocUpvalue addr nat
  | LocMeta lua_value
  | LocUservalue addr nat

text \<open>The value a path denotes: what \<open>eval_value\<close> leaves on top of the stack when it
  succeeds.\<close>

definition denoted :: "lua_State \<Rightarrow> value_path \<Rightarrow> lua_value option" where
  "denoted h v =
     (case eval_value h v of
        (t, h1) \<Rightarrow>
          if t = LUA_TNONE then None
          else (case stack h1 of x # rest \<Rightarrow> Some x | [] \<Rightarrow> None))"

text \<open>The place a target path denotes, when there is one: the local exists, the inner path
  denotes a table (and the bucket is occupied), a function with that upvalue, a
  userdata with that user value, or a value that can carry a metatable.\<close>

fun locate :: "lua_State \<Rightarrow> value_path \<Rightarrow> location option" where
  "locate h (FRAME_LOCAL frame n) =
     (case lua_getstack h (int frame) of
        None \<Rightarrow> None
      | Some ar \<Rightarrow>
          (case findlocal (frames h ! ar) n of
             Some (name, sl) \<Rightarrow> Some (LocLocal ar sl)
           | None \<Rightarrow> None))"
| "locate h (INDEX_INT index inner) =
     (case denoted h inner of Some (LTable a) \<Rightarrow> Some (LocField a (LInt index)) | _ \<Rightarrow> None)"
| "locate h (INDEX_STR key inner) =
     (case denoted h inner of Some (LTable a) \<Rightarrow> Some (LocField a (LStr key)) | _ \<Rightarrow> None)"
| "locate h (INDEX_VAL index inner) =
     (case denoted h inner of
        Some (LTable a) \<Rightarrow> (case bucket h a index of Some kv \<Rightarrow> Some (LocBucket a index) | None \<Rightarrow> None)
      | _ \<Rightarrow> None)"
| "locate h (UPVALUE index inner) =
     (case denoted h inner of
        Some (LFunc a) \<Rightarrow>
          if 1 \<le> index \<and> nat index \<le> length (upvals (the_closure h a))
          then Some (LocUpvalue a (nat index - 1)) else None
      | _ \<Rightarrow> None)"
| "locate h (METATABLE index inner) =
     (if index \<noteq> LUA_TTABLE \<and> index \<noteq> LUA_TUSERDATA then
        (case push_receiver index h of
           Some h1 \<Rightarrow> (case stack h1 of x # rest \<Rightarrow> Some (LocMeta x) | [] \<Rightarrow> None)
         | None \<Rightarrow> None)
      else
        (case inner of
           None \<Rightarrow> None
         | Some w \<Rightarrow>
             (case denoted h w of
                Some x \<Rightarrow>
                  if ttype x = LUA_TTABLE \<or> ttype x = LUA_TUSERDATA then Some (LocMeta x) else None
              | None \<Rightarrow> None)))"
| "locate h (USERVALUE index inner) =
     (case denoted h inner of
        Some (LUdata a) \<Rightarrow>
          if 1 \<le> index \<and> nat index \<le> length (uvalues (the_udata h a))
          then Some (LocUservalue a (nat index - 1)) else None
      | _ \<Rightarrow> None)"
| "locate h v = None"

text \<open>What a place holds.\<close>

definition read_location :: "lua_State \<Rightarrow> location \<Rightarrow> lua_value" where
  "read_location h loc =
     (case loc of
        LocLocal ar sl \<Rightarrow> slot_value (frames h ! ar) sl
      | LocField a k \<Rightarrow> luaH_get (the_table h a) k
      | LocBucket a i \<Rightarrow> (case bucket h a i of Some (k, v) \<Rightarrow> v | None \<Rightarrow> LNil)
      | LocUpvalue a i \<Rightarrow> snd (upvals (the_closure h a) ! i)
      | LocMeta x \<Rightarrow> (case metatable_of h x of Some m \<Rightarrow> LTable m | None \<Rightarrow> LNil)
      | LocUservalue a i \<Rightarrow> uvalues (the_udata h a) ! i)"

text \<open>The keys of a hash part. In a table of the host no key occurs twice: \<open>location_wf\<close>
  asks this of the table of a field.\<close>

fun node_keys :: "(lua_value \<times> lua_value) option list \<Rightarrow> lua_value list" where
  "node_keys [] = []"
| "node_keys (None # es) = node_keys es"
| "node_keys (Some (k, v) # es) = k # node_keys es"

definition location_wf :: "lua_State \<Rightarrow> location \<Rightarrow> bool" where
  "location_wf h loc =
     (case loc of LocField a k \<Rightarrow> distinct (node_keys (tnode (the_table h a))) | _ \<Rightarrow> True)"

section \<open>An example host\<close>

text \<open>
  A paused host with one frame: the running closure 0 has the locals \<^verbatim>\<open>x\<close>, a userdata
  of four bytes with one user value, \<^verbatim>\<open>t\<close>, the table \<^verbatim>\<open>{a = 1}\<close>, and \<^verbatim>\<open>f\<close>, the
  closure itself. Table 0 is the registry, table 2 the globals. 1025 bytes are in use.
\<close>

definition example_host :: lua_State where
  "example_host =
     \<lparr>stack = [],
      frames = [\<lparr>ffunc = 0, flocals = [(''x'', LUdata 0), (''t'', LTable 1), (''f'', LFunc 0)], fvarargs = []\<rparr>],
      tables = (\<lambda>a. if a = 0 then Some \<lparr>tarray = [], tnode = [Some (LInt 2, LTable 2)], tzero = None, tmeta = None\<rparr>
                     else if a = 1 then Some \<lparr>tarray = [], tnode = [None, Some (LStr ''a'', LInt 1)], tzero = None, tmeta = None\<rparr>
                     else if a = 2 then Some empty_table
                     else None),
      closures = (\<lambda>a. if a = 0 then Some \<lparr>upvals = [(''_ENV'', LTable 2)]\<rparr> else None),
      udatas = (\<lambda>a. if a = 0 then Some \<lparr>uvalues = [LInt 7], umeta = None\<rparr> else None),
      umem = (\<lambda>a. if a = 0 then ''abcd'' else []),
      registry = 0,
      type_mt = (\<lambda>t. None),
      maxstack = 1000000,
      gcbytes = 1025\<rparr>"

section \<open>Stack effects of the host operations\<close>

lemma index2value_upd [simp]:
  "index2value (h\<lparr>stack := a # s\<rparr>) (- 1) = Some a"
  "index2value (h\<lparr>stack := a # b # s\<rparr>) (- 2) = Some b"
  "index2value (h\<lparr>stack := a # b # c # s\<rparr>) (- 3) = Some c"
  "index2value h LUA_REGISTRYINDEX = Some (LTable (registry h))"
  by (simp_all add: index2value_def)

lemma lua_type_top [simp]: "lua_type (h\<lparr>stack := a # s\<rparr>) (- 1) = ttype a"
  by (simp add: lua_type_def)

lemma push_upd [simp]: "push v (h\<lparr>stack := s\<rparr>) = h\<lparr>stack := v # s\<rparr>"
  by (simp add: push_def)

lemma pushes [simp]:
  "lua_pushnil h = push LNil h"
  "lua_pushboolean b h = push (LBool b) h"
  "lua_pushinteger i h = push (LInt i) h"
  "lua_pushlstring str h = push (LStr str) h"
  "lua_pushlightuserdata p h = push (LLight p) h"
  by (simp_all add: lua_pushnil_def lua_pushboolean_def lua_pushinteger_def lua_pushlstring_def
      lua_pushlightuserdata_def)

lemma lua_replace_m2 [simp]:
  "lua_replace (- 2) (h\<lparr>stack := a # b # s\<rparr>) = h\<lparr>stack := a # s\<rparr>"
  by (simp add: lua_replace_def)

lemma lua_remove_m2 [simp]:
  "lua_remove (- 2) (h\<lparr>stack := a # b # s\<rparr>) = h\<lparr>stack := a # s\<rparr>"
  by (simp add: lua_remove_def)

lemma lua_insert_m2 [simp]:
  "lua_insert (- 2) (h\<lparr>stack := a # b # s\<rparr>) = h\<lparr>stack := b # a # s\<rparr>"
  by (simp add: lua_insert_def)

lemma lua_pop_upd [simp]:
  "lua_pop (Suc 0) (h\<lparr>stack := a # s\<rparr>) = h\<lparr>stack := s\<rparr>"
  "lua_pop 2 (h\<lparr>stack := a # b # s\<rparr>) = h\<lparr>stack := s\<rparr>"
  "lua_pop 3 (h\<lparr>stack := a # b # c # s\<rparr>) = h\<lparr>stack := s\<rparr>"
  by (simp_all add: lua_pop_def)

lemma lua_gettop_upd [simp]: "lua_gettop (h\<lparr>stack := s\<rparr>) = int (length s)"
  by (simp add: lua_gettop_def)

lemma lua_settop_pred [simp]:
  "lua_settop (int (length s)) (h\<lparr>stack := xs @ s\<rparr>) = h\<lparr>stack := s\<rparr>"
  by (simp add: lua_settop_def Let_def)

lemma heap_upd [simp]:
  "the_table (h\<lparr>stack := s\<rparr>) a = the_table h a"
  "the_closure (h\<lparr>stack := s\<rparr>) a = the_closure h a"
  "the_udata (h\<lparr>stack := s\<rparr>) a = the_udata h a"
  by (simp_all add: the_table_def the_closure_def the_udata_def)

lemma rawget_value_upd [simp]: "rawget_value (h\<lparr>stack := s\<rparr>) t k = rawget_value h t k"
  by (simp add: rawget_value_def split: lua_value.splits)

lemma lua_rawget_m2 [simp]:
  "lua_rawget (- 2) (h\<lparr>stack := k # t # s\<rparr>) = h\<lparr>stack := rawget_value h t k # t # s\<rparr>"
  by (simp add: lua_rawget_def)

lemma ttype_not_none [simp]: "ttype x \<noteq> LUA_TNONE"
  by (cases x) simp_all

lemma lua_getlocal_cases:
  "lua_getlocal ar n h = (r, h1) \<Longrightarrow>
     (r = None \<and> h1 = h) \<or> (\<exists>name x. r = Some name \<and> h1 = h\<lparr>stack := x # stack h\<rparr>)"
  by (auto simp: lua_getlocal_def push_def split: option.splits)

lemma get_k_cases:
  "get_k (- 1) i (h\<lparr>stack := a # s\<rparr>) = (ok, h1) \<Longrightarrow>
     (\<not> ok \<and> h1 = h\<lparr>stack := a # s\<rparr>) \<or> (\<exists>x. ok \<and> h1 = h\<lparr>stack := x # a # s\<rparr>)"
  by (auto simp: get_k_def get_k_at_def table_addr_def split: option.splits lua_value.splits)

lemma get_v_cases:
  "get_v (- 1) i (h\<lparr>stack := a # s\<rparr>) = (ok, h1) \<Longrightarrow>
     (\<not> ok \<and> h1 = h\<lparr>stack := a # s\<rparr>) \<or> (\<exists>x. ok \<and> h1 = h\<lparr>stack := x # a # s\<rparr>)"
  by (auto simp: get_v_def get_v_at_def table_addr_def split: option.splits lua_value.splits)

lemma lua_getupvalue_cases:
  "lua_getupvalue (- 1) n (h\<lparr>stack := a # s\<rparr>) = (r, h1) \<Longrightarrow>
     (r = None \<and> h1 = h\<lparr>stack := a # s\<rparr>) \<or>
     (\<exists>name x. r = Some name \<and> h1 = h\<lparr>stack := x # a # s\<rparr>)"
  by (auto simp: lua_getupvalue_def split: if_splits)

lemma lua_getmetatable_cases:
  "lua_getmetatable (- 1) (h\<lparr>stack := a # s\<rparr>) = (ok, h1) \<Longrightarrow>
     (\<not> ok \<and> h1 = h\<lparr>stack := a # s\<rparr>) \<or> (\<exists>m. ok \<and> h1 = h\<lparr>stack := LTable m # a # s\<rparr>)"
  by (auto simp: lua_getmetatable_def split: option.splits)

lemma lua_getiuservalue_cases:
  "lua_getiuservalue (- 1) n (h\<lparr>stack := a # s\<rparr>) = (t, h1) \<Longrightarrow>
     (t = LUA_TNONE \<and> h1 = h\<lparr>stack := LNil # a # s\<rparr>) \<or>
     (\<exists>x. t = ttype x \<and> h1 = h\<lparr>stack := x # a # s\<rparr>)"
  by (auto simp: lua_getiuservalue_def Let_def split: if_splits)

lemma eval_metatable_shape:
  "eval_metatable (h\<lparr>stack := a # s\<rparr>) = (t, h1) \<Longrightarrow>
     \<exists>x. h1 = h\<lparr>stack := x # s\<rparr> \<and> ttype x = t"
  by (auto simp: eval_metatable_def split: prod.splits bool.splits dest!: lua_getmetatable_cases)

lemma push_receiver_shape:
  "push_receiver t h = Some h1 \<Longrightarrow> \<exists>x. h1 = h\<lparr>stack := x # stack h\<rparr>"
  by (auto simp: push_receiver_def push_def split: if_splits)

lemma rawgeti_shape:
  "rawgeti idx n h = (t, h1) \<Longrightarrow> \<exists>x. h1 = h\<lparr>stack := x # stack h\<rparr> \<and> ttype x = t"
  by (auto simp: rawgeti_def Let_def push_def)

text \<open>
  What \<^verbatim>\<open>eval_value_\<close> does to the host: when it returns a type, exactly one value of
  that type has been pushed and nothing else has changed; when it returns \<open>LUA_TNONE\<close>,
  the host is unchanged or carries one nil more (the \<open>USERVALUE\<close> step).
\<close>

lemma eval_value_shape:
  "eval_value h v = (t, h') \<Longrightarrow>
     (t \<noteq> LUA_TNONE \<longrightarrow> (\<exists>x. h' = h\<lparr>stack := x # stack h\<rparr> \<and> ttype x = t)) \<and>
     (t = LUA_TNONE \<longrightarrow> h' = h \<or> h' = h\<lparr>stack := LNil # stack h\<rparr>)"
proof (induction h v arbitrary: t h' rule: eval_value.induct)
  case (1 h frame n)
  then show ?case
    by (auto split: option.splits prod.splits dest!: lua_getlocal_cases)
next
  case (2 h index)
  then show ?case
    by (auto simp: lua_getinfo_f_def push_def split: option.splits)
next
  case (3 h index inner)
  obtain t1 h1 where e: "eval_value h inner = (t1, h1)" by (cases "eval_value h inner")
  from "3.IH" [OF e] "3.prems" e show ?case
    by (auto simp: Let_def push_def split: if_splits)
next
  case (4 h key inner)
  obtain t1 h1 where e: "eval_value h inner = (t1, h1)" by (cases "eval_value h inner")
  from "4.IH" [OF e] "4.prems" e show ?case
    by (auto simp: Let_def push_def split: if_splits)
next
  case (5 h index inner)
  obtain t1 h1 where e: "eval_value h inner = (t1, h1)" by (cases "eval_value h inner")
  from "5.IH" [OF e] "5.prems" e show ?case
    by (auto simp: Let_def split: if_splits prod.splits bool.splits dest!: get_k_cases)
next
  case (6 h index inner)
  obtain t1 h1 where e: "eval_value h inner = (t1, h1)" by (cases "eval_value h inner")
  from "6.IH" [OF e] "6.prems" e show ?case
    by (auto simp: Let_def split: if_splits prod.splits bool.splits dest!: get_v_cases)
next
  case (7 h index inner)
  obtain t1 h1 where e: "eval_value h inner = (t1, h1)" by (cases "eval_value h inner")
  from "7.IH" [OF e] "7.prems" e show ?case
    by (auto simp: Let_def split: if_splits prod.splits option.splits dest!: lua_getupvalue_cases)
next
  case (8 h)
  then show ?case by (auto dest!: rawgeti_shape)
next
  case (9 h)
  then show ?case by (auto simp: lua_pushvalue_def push_def)
next
  case (10 h index inner)
  show ?case
  proof (cases "index \<noteq> LUA_TTABLE \<and> index \<noteq> LUA_TUSERDATA")
    case True
    with "10.prems" show ?thesis
      by (auto split: option.splits dest!: push_receiver_shape eval_metatable_shape)
  next
    case False
    show ?thesis
    proof (cases inner)
      case None
      with False "10.prems" show ?thesis by auto
    next
      case (Some w)
      obtain t1 h1 where e: "eval_value h w = (t1, h1)" by (cases "eval_value h w")
      from "10.IH" [OF _ Some e] False "10.prems" e Some show ?thesis
        by (auto split: if_splits dest!: eval_metatable_shape)
    qed
  qed
next
  case (11 h index inner)
  obtain t1 h1 where e: "eval_value h inner = (t1, h1)" by (cases "eval_value h inner")
  from "11.IH" [OF e] "11.prems" e show ?case
    by (auto simp: Let_def split: if_splits prod.splits dest!: lua_getiuservalue_cases)
next
  case (12 h index)
  then show ?case by (auto simp: Let_def lua_pushvalue_def push_def lua_type_def)
qed

lemma eval_value_success:
  "eval_value h v = (t, h') \<Longrightarrow> t \<noteq> LUA_TNONE \<Longrightarrow>
     \<exists>x. h' = h\<lparr>stack := x # stack h\<rparr> \<and> ttype x = t"
  using eval_value_shape by blast

lemma lua_settop_cons [simp]:
  "lua_settop (int (length s)) (h\<lparr>stack := v # s\<rparr>) = h\<lparr>stack := s\<rparr>"
  using lua_settop_pred [where xs = "[v]"] by simp

lemma assign_fail_cons [simp]:
  "assign_fail (1 + int (length s)) (h\<lparr>stack := xs @ s\<rparr>) = (0, h\<lparr>stack := s\<rparr>)"
  by (simp add: assign_fail_def)

section \<open>Evaluation does not read userdata memory\<close>

lemma index2value_umem [simp]: "index2value (h\<lparr>umem := m\<rparr>) idx = index2value h idx"
  by (simp add: index2value_def)

lemma heap_umem [simp]:
  "the_table (h\<lparr>umem := m\<rparr>) a = the_table h a"
  "the_closure (h\<lparr>umem := m\<rparr>) a = the_closure h a"
  "the_udata (h\<lparr>umem := m\<rparr>) a = the_udata h a"
  by (simp_all add: the_table_def the_closure_def the_udata_def)

lemma ops_umem [simp]:
  "push x (h\<lparr>umem := m\<rparr>) = (push x h)\<lparr>umem := m\<rparr>"
  "lua_pop n (h\<lparr>umem := m\<rparr>) = (lua_pop n h)\<lparr>umem := m\<rparr>"
  "lua_replace idx (h\<lparr>umem := m\<rparr>) = (lua_replace idx h)\<lparr>umem := m\<rparr>"
  "lua_remove idx (h\<lparr>umem := m\<rparr>) = (lua_remove idx h)\<lparr>umem := m\<rparr>"
  "lua_pushvalue idx (h\<lparr>umem := m\<rparr>) = (lua_pushvalue idx h)\<lparr>umem := m\<rparr>"
  "lua_rawget idx (h\<lparr>umem := m\<rparr>) = (lua_rawget idx h)\<lparr>umem := m\<rparr>"
  "lua_type (h\<lparr>umem := m\<rparr>) idx = lua_type h idx"
  "lua_getstack (h\<lparr>umem := m\<rparr>) l = lua_getstack h l"
  by (simp_all add: push_def lua_pop_def lua_replace_def lua_remove_def lua_pushvalue_def
      lua_rawget_def rawget_value_def lua_type_def lua_getstack_def Let_def
      split: list.splits option.splits lua_value.splits)

lemma ops2_umem [simp]:
  "lua_getlocal ar n (h\<lparr>umem := m\<rparr>) = (fst (lua_getlocal ar n h), (snd (lua_getlocal ar n h))\<lparr>umem := m\<rparr>)"
  "lua_getinfo_f ar (h\<lparr>umem := m\<rparr>) = (fst (lua_getinfo_f ar h), (snd (lua_getinfo_f ar h))\<lparr>umem := m\<rparr>)"
  "get_k idx i (h\<lparr>umem := m\<rparr>) = (fst (get_k idx i h), (snd (get_k idx i h))\<lparr>umem := m\<rparr>)"
  "get_v idx i (h\<lparr>umem := m\<rparr>) = (fst (get_v idx i h), (snd (get_v idx i h))\<lparr>umem := m\<rparr>)"
  "lua_getupvalue idx i (h\<lparr>umem := m\<rparr>) = (fst (lua_getupvalue idx i h), (snd (lua_getupvalue idx i h))\<lparr>umem := m\<rparr>)"
  "lua_getmetatable idx (h\<lparr>umem := m\<rparr>) = (fst (lua_getmetatable idx h), (snd (lua_getmetatable idx h))\<lparr>umem := m\<rparr>)"
  "lua_getiuservalue idx i (h\<lparr>umem := m\<rparr>) = (fst (lua_getiuservalue idx i h), (snd (lua_getiuservalue idx i h))\<lparr>umem := m\<rparr>)"
  "rawgeti idx i (h\<lparr>umem := m\<rparr>) = (fst (rawgeti idx i h), (snd (rawgeti idx i h))\<lparr>umem := m\<rparr>)"
  by (auto simp: lua_getlocal_def lua_getinfo_f_def get_k_def get_v_def get_k_at_def get_v_at_def
      table_addr_def bucket_def lua_getupvalue_def func_upvals_def lua_getmetatable_def metatable_of_def
      lua_getiuservalue_def udata_uvalues_def rawgeti_def rawget_value_def Let_def
      split: option.splits lua_value.splits prod.splits)

lemma push_receiver_umem [simp]:
  "push_receiver t (h\<lparr>umem := m\<rparr>) = map_option (\<lambda>h1. h1\<lparr>umem := m\<rparr>) (push_receiver t h)"
  by (simp add: push_receiver_def)

lemma eval_metatable_umem [simp]:
  "eval_metatable (h\<lparr>umem := m\<rparr>) = (fst (eval_metatable h), (snd (eval_metatable h))\<lparr>umem := m\<rparr>)"
  by (simp add: eval_metatable_def split: prod.splits bool.splits)

lemma eval_value_umem:
  "eval_value (h\<lparr>umem := m\<rparr>) v = (fst (eval_value h v), (snd (eval_value h v))\<lparr>umem := m\<rparr>)"
proof (induction v)
  case (METATABLE index inner)
  then show ?case
    by (cases inner) (simp_all split: option.splits prod.splits)
qed (simp_all add: Let_def split: option.splits prod.splits bool.splits)


lemma copy_fromR_path:
  "lua_checkstack h 3 \<Longrightarrow> copy_fromR (DUserdata v) h = Inr (eval_value h v)"
  by (simp add: copy_fromR_def lua_checkstack_def)

lemma sint_nonneg_unat:
  fixes w :: "64 word"
  assumes "0 \<le> sint w"
  shows "unat w = nat (sint w)" and "unat w < 2 ^ 63"
proof -
  have lt: "sint w < 2 ^ 63" using sint_lt [of w] by simp
  have "uint w = take_bit 64 (sint w)" using uint_sint [of w] by simp
  also have "\<dots> = sint w" using assms lt by (simp add: take_bit_int_eq_self)
  finally have eq: "uint w = sint w" .
  then show "unat w = nat (sint w)" by (simp add: unat_eq_nat_uint)
  with lt assms show "unat w < 2 ^ 63" by (simp add: nat_less_iff)
qed

lemma unat_len:
  "n < 2 ^ 64 \<Longrightarrow> unat (word_of_nat n :: 64 word) = n"
  by (simp add: unat_of_nat)

lemma sint_len:
  assumes "n < 2 ^ 63"
  shows "sint (word_of_nat n :: 64 word) = int n"
proof -
  have "uint (word_of_nat n :: 64 word) = int n"
    using assms by (simp add: uint_nat unat_of_nat)
  then show ?thesis
    using assms by (simp add: sint_uint signed_take_bit_int_eq_self)
qed

lemma no_wrap:
  fixes off :: "64 word"
  assumes "0 \<le> sint off" and "n < 2 ^ 63"
  shows "unat (off + word_of_nat n) = nat (sint off) + n"
proof -
  have "unat off + unat (word_of_nat n :: 64 word) < 2 ^ 64"
    using sint_nonneg_unat [OF assms(1)] assms(2) by (simp add: unat_len)
  then have "unat (off + word_of_nat n) = unat off + unat (word_of_nat n :: 64 word)"
    by (simp add: unat_add_lem [where 'a = 64, simplified])
  then show ?thesis
    using sint_nonneg_unat [OF assms(1)] assms(2) by (simp add: unat_len)
qed


section \<open>Facts about the example host\<close>

lemma example_host_simps [simp]:
  "stack example_host = []"
  "frames example_host = [\<lparr>ffunc = 0, flocals = [(''x'', LUdata 0), (''t'', LTable 1), (''f'', LFunc 0)], fvarargs = []\<rparr>]"
  "udatas example_host 0 = Some \<lparr>uvalues = [LInt 7], umeta = None\<rparr>"
  "umem example_host 0 = ''abcd''"
  "closures example_host 0 = Some \<lparr>upvals = [(''_ENV'', LTable 2)]\<rparr>"
  "tables example_host (Suc 0) = Some \<lparr>tarray = [], tnode = [None, Some (LStr ''a'', LInt 1)], tzero = None, tmeta = None\<rparr>"
  "registry example_host = 0"
  "maxstack example_host = 1000000"
  "gcbytes example_host = 1025"
  by (simp_all add: example_host_def)

lemma example_local_x:
  "eval_value example_host (FRAME_LOCAL 0 1) = (LUA_TUSERDATA, example_host\<lparr>stack := [LUdata 0]\<rparr>)"
  by (simp add: lua_getstack_def lua_getlocal_def findlocal_def slot_value_def push_def)

lemma example_local_t:
  "eval_value example_host (FRAME_LOCAL 0 2) = (LUA_TTABLE, example_host\<lparr>stack := [LTable 1]\<rparr>)"
  by (simp add: lua_getstack_def lua_getlocal_def findlocal_def slot_value_def push_def)

lemma example_local_f:
  "eval_value example_host (FRAME_LOCAL 0 3) = (LUA_TFUNCTION, example_host\<lparr>stack := [LFunc 0]\<rparr>)"
  by (simp add: lua_getstack_def lua_getlocal_def findlocal_def slot_value_def push_def)

lemma example_checkstack [simp]: "lua_checkstack example_host n \<longleftrightarrow> n \<le> 1000000"
  by (simp add: lua_checkstack_def)

section \<open>Reading and writing userdata memory\<close>

lemma udwrite_full_eq:
  assumes ev: "eval_value h v = (LUA_TUSERDATA, h\<lparr>stack := LUdata a # stack h\<rparr>)"
    and cs: "lua_checkstack h 3"
    and ld: "length data < 2 ^ 63"
    and lm: "length (umem h a) < 2 ^ 64"
  shows "lclient_udwrite (DUserdata v) off data False h =
     (if 0 \<le> sint off \<and> sint off + int (length data) \<le> int (length (umem h a))
      then Inr ([DBool True], h\<lparr>umem := (umem h)(a := memcpy (umem h a) (nat (sint off)) data (length data))\<rparr>)
      else Inr ([], h))"
proof (cases "0 \<le> sint off")
  case False
  then have "off <s 0" by (simp add: word_sless_alt)
  with ev cs show ?thesis using False
    by (simp add: lclient_udwrite_def copy_fromR_path Let_def lua_pop_def)
next
  case True
  then have neg: "\<not> off <s 0" by (simp add: word_sless_alt)
  have cmp: "(word_of_nat (length (umem h a)) :: 64 word) < off + word_of_nat (length data)
       \<longleftrightarrow> \<not> (sint off + int (length data) \<le> int (length (umem h a)))"
    using True by (simp add: word_less_nat_alt no_wrap [OF True ld] unat_len [OF lm]) linarith
  show ?thesis using ev cs neg True cmp ld lm
    by (simp add: lclient_udwrite_def copy_fromR_path Let_def lua_pop_def unat_len
        sint_nonneg_unat(1) [OF True])
qed

lemma udwrite_partial_eq:
  assumes ev: "eval_value h v = (LUA_TUSERDATA, h\<lparr>stack := LUdata a # stack h\<rparr>)"
    and cs: "lua_checkstack h 3"
    and ld: "length data < 2 ^ 63"
    and lm: "length (umem h a) < 2 ^ 63"
  shows "lclient_udwrite (DUserdata v) off data True h =
     (if sint off < 0 then Inr ([DInt 0], h)
      else (let n = nat (min (int (length data)) (max 0 (int (length (umem h a)) - sint off)))
            in Inr ([DInt (int n)],
                    h\<lparr>umem := (umem h)(a := memcpy (umem h a) (nat (sint off)) data n)\<rparr>)))"
proof (cases "0 \<le> sint off")
  case False
  then have "off <s 0" by (simp add: word_sless_alt)
  with ev cs show ?thesis using False
    by (simp add: lclient_udwrite_def copy_fromR_path Let_def lua_pop_def)
next
  case True
  then have neg: "\<not> off <s 0" by (simp add: word_sless_alt)
  note uo = sint_nonneg_unat [OF True]
  have lm': "length (umem h a) < 2 ^ 64" using lm by simp
  have ul: "unat (word_of_nat (length (umem h a)) :: 64 word) = length (umem h a)"
    using lm' by (rule unat_len)
  have uc: "unat (word_of_nat (length data) :: 64 word) = length data"
    using ld by (simp add: unat_len)
  show ?thesis
  proof (cases "(word_of_nat (length (umem h a)) :: 64 word) \<le> off")
    case le: True
    then have "length (umem h a) \<le> nat (sint off)"
      by (simp add: word_le_nat_alt ul uo)
    then have n0: "nat (min (int (length data)) (max 0 (int (length (umem h a)) - sint off))) = 0"
      using True by simp
    have "memcpy (umem h a) (nat (sint off)) data 0 = umem h a"
      by (simp add: memcpy_def)
    then show ?thesis using ev cs neg True le n0
      by (simp add: lclient_udwrite_def copy_fromR_path Let_def lua_pop_def)
  next
    case nle: False
    then have lt: "nat (sint off) < length (umem h a)"
      by (simp add: word_le_nat_alt ul uo)
    have sub: "unat ((word_of_nat (length (umem h a)) :: 64 word) - off) = length (umem h a) - nat (sint off)"
      using nle by (simp add: unat_sub ul uo word_le_nat_alt)
    have um: "unat (min (word_of_nat (length data) :: 64 word) (word_of_nat (length (umem h a)) - off))
        = min (length data) (length (umem h a) - nat (sint off))"
      by (simp add: min_def word_le_nat_alt uc sub)
    have n: "nat (min (int (length data)) (max 0 (int (length (umem h a)) - sint off)))
        = min (length data) (length (umem h a) - nat (sint off))"
      using True lt by (simp add: min_def max_def) linarith
    have bound: "min (length data) (length (umem h a) - nat (sint off)) < 2 ^ 63"
      using ld by simp
    have sm: "sint (min (word_of_nat (length data) :: 64 word) (word_of_nat (length (umem h a)) - off))
        = int (min (length data) (length (umem h a) - nat (sint off)))"
    proof -
      let ?w = "min (word_of_nat (length data) :: 64 word) (word_of_nat (length (umem h a)) - off)"
      have "?w = word_of_nat (unat ?w)" by simp
      also have "\<dots> = word_of_nat (min (length data) (length (umem h a) - nat (sint off)))"
        by (simp only: um)
      finally show ?thesis using sint_len [OF bound] by simp
    qed
    show ?thesis using ev cs neg True nle
      by (simp add: lclient_udwrite_def copy_fromR_path Let_def lua_pop_def um n sm uo)
  qed
qed


section \<open>Helper facts for reading, writing and assigning\<close>

lemma checkstack_umem [simp]: "lua_checkstack (h\<lparr>umem := m\<rparr>) n = lua_checkstack h n"
  by (simp add: lua_checkstack_def)

lemma udread_after_write:
  assumes ev: "eval_value h v = (LUA_TUSERDATA, h\<lparr>stack := LUdata a # stack h\<rparr>)"
    and cs: "lua_checkstack h 3"
    and ld: "length data < 2 ^ 63"
    and lm: "length (umem h a) < 2 ^ 64"
    and ne: "data \<noteq> []"
    and wr: "lclient_udwrite (DUserdata v) off data False h = Inr ([DBool True], h')"
  shows "lclient_udread (DUserdata v) off (word_of_nat (length data)) h' = Inr ([DStr data], h')"
proof -
  let ?mem = "umem h a"
  let ?mem' = "memcpy ?mem (nat (sint off)) data (length data)"
  from wr udwrite_full_eq [OF ev cs ld lm, of off]
  have ok: "0 \<le> sint off" "sint off + int (length data) \<le> int (length ?mem)"
    and h': "h' = h\<lparr>umem := (umem h)(a := ?mem')\<rparr>"
    by (auto split: if_splits)
  note uo = sint_nonneg_unat [OF ok(1)]
  have len': "length ?mem' = length ?mem"
    using ok by (simp add: memcpy_def)
  have ev': "eval_value h' v = (LUA_TUSERDATA, h'\<lparr>stack := LUdata a # stack h'\<rparr>)"
    by (simp add: h' eval_value_umem ev)
  have ul: "unat (word_of_nat (length ?mem) :: 64 word) = length ?mem"
    using lm by (rule unat_len)
  have inb: "nat (sint off) < length ?mem"
  proof -
    have "0 < int (length data)" using ne by simp
    with ok show ?thesis by linarith
  qed
  have nle: "\<not> (word_of_nat (length ?mem) :: 64 word) \<le> off"
    using inb by (simp add: word_le_nat_alt ul uo)
  have nlt: "\<not> (word_of_nat (length ?mem) :: 64 word) < off + word_of_nat (length data)"
    using ok by (simp add: word_less_nat_alt no_wrap [OF ok(1) ld] ul)
  have pos: "\<not> (word_of_nat (length data) :: 64 word) \<le>s 0"
    using ne by (simp add: word_sle_eq sint_len [OF ld])
  have neg: "\<not> off <s 0" using ok by (simp add: word_sless_alt)
  have rd: "take (length data) (drop (nat (sint off)) ?mem') = data"
    using ok by (simp add: memcpy_def min_def) 
  have um': "umem h' a = ?mem'" by (simp add: h')
  show ?thesis
    using ev' cs nle nlt pos neg
    by (simp add: lclient_udread_def copy_fromR_path h' Let_def lua_pop_def len' rd
        unat_len [OF ld [THEN less_trans, of "2 ^ 64"]] uo)
qed


lemma udread_eq:
  assumes "eval_value h v = (LUA_TUSERDATA, h\<lparr>stack := LUdata a # stack h\<rparr>)"
    and "lua_checkstack h 3"
  shows "lclient_udread (DUserdata v) off cnt h =
     (let memory = umem h a;
          len = (word_of_nat (length memory) :: 64 word)
      in if off <s 0 \<or> len \<le> off \<or> cnt \<le>s 0 then Inr ([], h)
         else Inr ([DStr (take (unat (if len < off + cnt then len - off else cnt)) (drop (unat off) memory))], h))"
  using assms by (simp add: lclient_udread_def copy_fromR_path Let_def lua_pop_def)

lemma example_ev:
  "eval_value example_host (FRAME_LOCAL 0 1)
      = (LUA_TUSERDATA, example_host\<lparr>stack := LUdata 0 # stack example_host\<rparr>)"
  using example_local_x by simp

lemma lua_getstack_stack [simp]: "lua_getstack (h\<lparr>stack := s\<rparr>) l = lua_getstack h l"
  by (simp add: lua_getstack_def)

lemma checkstack_push: "lua_checkstack (h\<lparr>stack := x # s\<rparr>) 3 \<Longrightarrow> lua_checkstack (h\<lparr>stack := s\<rparr>) 3"
  by (simp add: lua_checkstack_def)

lemma lclient_assign_unresolved:
  assumes ev: "eval_value h vp = (LUA_TNONE, h1)"
    and cs: "lua_checkstack h 3"
    and cs1: "lua_checkstack (push LNil h1) 3"
  shows "lclient_assign (DUserdata ref) (DUserdata vp) h =
     (case assign_value ref (push LNil h1) of (r, h3) \<Rightarrow> Inr ([DBool (r \<noteq> 0)], h3))"
proof -
  have cs2: "lua_checkstack h 2" using cs by (simp add: lua_checkstack_def)
  show ?thesis using ev cs cs1 cs2
    by (simp add: lclient_assign_def copy_fromR_path)
qed

lemma slot_value_update:
  assumes "findlocal f n = Some (name, sl)"
  shows "slot_value (slot_update f sl x) sl = x"
  using assms
  by (auto simp: findlocal_def slot_value_def slot_update_def split: if_splits)

lemma assign_local_nil:
  assumes gs: "lua_getstack h (int frame) = Some ar"
    and fl: "findlocal (frames h ! ar) n = Some (name, sl)"
  shows "\<exists>h3. assign_value (FRAME_LOCAL frame n) (h\<lparr>stack := LNil # s\<rparr>) = (1, h3)
           \<and> slot_value (frames h3 ! ar) sl = LNil"
proof -
  have ar: "ar < length (frames h)"
    using gs by (auto simp: lua_getstack_def split: if_splits)
  show ?thesis using gs fl ar
    by (simp add: lua_setlocal_def slot_value_update [OF fl])
qed

lemma scan_options_None:
  "scan_options cs hasf sz = None \<longleftrightarrow> (\<exists>c \<in> set cs. c \<notin> set ''Slnfutr'')"
  by (induction cs arbitrary: hasf sz) auto

lemma scan_options_Some:
  "scan_options cs hasf sz = Some (hf, sz') \<Longrightarrow> hf = (hasf \<or> CHR ''f'' \<in> set cs)"
  by (induction cs arbitrary: hasf sz) (auto split: if_splits)

section \<open>The loop of the table enumeration\<close>

lemma array_of_snoc: "array_of (xs @ [x]) = array_of xs @ [(int (length xs) + 1, x)]"
  by (simp add: array_of_def)

lemma table_store_fresh: "n \<notin> fst ` set kvs \<Longrightarrow> table_store n x kvs = kvs @ [(n, x)]"
  by (induction kvs) auto

lemma array_of_keys: "fst ` set (array_of xs) \<subseteq> {1..int (length xs)}"
  by (auto simp: array_of_def dest!: set_zip_leftD)

lemma table_store_array:
  assumes "n = int (length xs) + 1"
  shows "table_store n x (array_of xs) = array_of (xs @ [x])"
proof -
  have "int (length xs) + 1 \<notin> fst ` set (array_of xs)"
    using array_of_keys [of xs] by auto
  then show ?thesis by (simp add: assms table_store_fresh array_of_snoc)
qed

lemma bucket_stack [simp]: "bucket (h\<lparr>stack := s\<rparr>) t i = bucket h t i"
  by (simp add: bucket_def)

lemma hash_size_stack [simp]: "hash_size (h\<lparr>stack := s\<rparr>) t = hash_size h t"
  by (simp add: hash_size_def)

lemma get_kv_stack:
  "get_kv t i (h\<lparr>stack := s\<rparr>) =
     (case bucket h t i of Some (k, v) \<Rightarrow> (True, h\<lparr>stack := k # v # s\<rparr>) | None \<Rightarrow> (False, h\<lparr>stack := s\<rparr>))"
  by (simp add: get_kv_def push_def split: option.splits)

lemma get_zero_stack:
  "get_zero t (h\<lparr>stack := s\<rparr>) =
     (case tzero (the_table h t) of Some (k, v) \<Rightarrow> (True, h\<lparr>stack := k # v # s\<rparr>) | None \<Rightarrow> (False, h\<lparr>stack := s\<rparr>))"
  by (simp add: get_zero_def push_def split: option.splits)

lemma copy_toR_stack:
  "copy_toR (h\<lparr>stack := x # s\<rparr>) L =
     (case copy_prim x of Some d \<Rightarrow> (ttype x, d # L) | None \<Rightarrow> (LUA_TNONE, L))"
  by (simp add: copy_toR_def)

lemma combine_key_entry:
  "combine_key 1 i [DTable kvs, DUserdata p] (h\<lparr>stack := k # s\<rparr>) =
     ([key_item p (i, k, v), DTable kvs, DUserdata p], h\<lparr>stack := s\<rparr>)"
  by (simp add: combine_key_def copy_toR_stack key_item_def create_value_def luadbg_index_def
      split: option.splits)

lemma combine_val_entry:
  "combine_val 1 i ref [DTable kvs, DUserdata p] (h\<lparr>stack := v # s\<rparr>) =
     ((if ref then [val_item p (i, k, v), DUserdata (INDEX_VAL i p), DTable kvs, DUserdata p]
       else [val_item p (i, k, v), DTable kvs, DUserdata p]), h\<lparr>stack := s\<rparr>)"
  by (simp add: combine_val_def copy_toR_stack val_item_def create_value_def luadbg_index_def
      luadbg_pushvalue_def Let_def split: option.splits)

lemma luadbg_rawseti_m2 [simp]:
  "luadbg_rawseti (- 2) m (x # DTable kvs # rest) = DTable (table_store m x kvs) # rest"
  by (simp add: luadbg_rawseti_def)

lemma luadbg_rawseti_m3 [simp]:
  "luadbg_rawseti (- 3) m (x # y # DTable kvs # rest) = y # DTable (table_store m x kvs) # rest"
  by (simp add: luadbg_rawseti_def)

lemma tablehash_entry_array:
  "tablehash_entry ref i (int (length out)) [DTable (array_of out), DUserdata p] (h\<lparr>stack := k # v # s\<rparr>) =
     (int (length (out @ entry_items ref p (i, k, v))),
      [DTable (array_of (out @ entry_items ref p (i, k, v))), DUserdata p],
      h\<lparr>stack := s\<rparr>)"
proof -
  have a1: "table_store (int (length out) + 1) x (array_of out) = array_of (out @ [x])" for x
    by (rule table_store_array) simp
  have a2: "table_store (int (length out) + 2) y (array_of (out @ [x])) = array_of (out @ [x, y])" for x y
    by (rule table_store_array [of _ "out @ [x]", simplified]) simp
  have a3: "table_store (int (length out) + 3) z (array_of (out @ [x, y])) = array_of (out @ [x, y, z])" for x y z
    by (rule table_store_array [of _ "out @ [x, y]", simplified]) simp
  show ?thesis
    by (simp add: tablehash_entry_def combine_key_entry [where v = v] combine_val_entry [where k = k]
        entry_items_def a1 a2 a3)
qed

lemma bucket_entries_step:
  "i < hsize \<Longrightarrow> bucket_entries h t i hsize =
     (case bucket h t (int i) of Some (k, v) \<Rightarrow> [(int i, k, v)] | None \<Rightarrow> []) @ bucket_entries h t (Suc i) hsize"
  by (simp add: bucket_entries_def upt_conv_Cons)

lemma bucket_entries_done: "\<not> i < hsize \<Longrightarrow> bucket_entries h t i hsize = []"
  by (simp add: bucket_entries_def)

lemma tablehash_loop_array:
  assumes "int (length (bucket_entries h t i hsize)) \<le> maxn"
  shows "tablehash_loop ref t hsize i maxn (int (length out)) [DTable (array_of out), DUserdata p]
           (h\<lparr>stack := s\<rparr>) =
     (False, maxn - int (length (bucket_entries h t i hsize)),
      int (length (out @ concat (map (entry_items ref p) (bucket_entries h t i hsize)))),
      [DTable (array_of (out @ concat (map (entry_items ref p) (bucket_entries h t i hsize)))), DUserdata p],
      h\<lparr>stack := s\<rparr>)"
  using assms
proof (induction "hsize - i" arbitrary: i maxn out)
  case 0
  then have "\<not> i < hsize" by simp
  then show ?case
    by (subst tablehash_loop.simps) (simp add: bucket_entries_done)
next
  case (Suc d)
  then have lt: "i < hsize" and d: "d = hsize - Suc i" by simp_all
  show ?case
  proof (cases "bucket h t (int i)")
    case None
    with lt have be: "bucket_entries h t i hsize = bucket_entries h t (Suc i) hsize"
      by (simp add: bucket_entries_step)
    from Suc.hyps(1) [OF d, of maxn out] Suc.prems be
    show ?thesis
      by (subst tablehash_loop.simps) (simp add: lt get_kv_stack None be)
  next
    case (Some kv)
    obtain k v where kv: "kv = (k, v)" by (cases kv)
    from lt Some kv have be: "bucket_entries h t i hsize = (int i, k, v) # bucket_entries h t (Suc i) hsize"
      by (simp add: bucket_entries_step)
    from Suc.prems be have m1: "\<not> maxn - 1 < 0"
      and m2: "int (length (bucket_entries h t (Suc i) hsize)) \<le> maxn - 1" by simp_all
    have len: "int (length (out @ entry_items ref p (int i, k, v)))
         = int (length out) + (if ref then 3 else 2)"
      by (simp add: entry_items_def)
    from Suc.hyps(1) [OF d m2, of "out @ entry_items ref p (int i, k, v)"] m1
    show ?thesis
      by (subst tablehash_loop.simps)
         (simp add: lt get_kv_stack Some kv m1 tablehash_entry_array be del: length_append)
  qed
qed


lemma table_addr_top [simp]: "table_addr (h\<lparr>stack := LTable t # s\<rparr>) (- 1) = Some t"
  by (simp add: table_addr_def)

lemma tablehash_eq:
  assumes ev: "eval_value h p = (LUA_TTABLE, h\<lparr>stack := LTable t # stack h\<rparr>)"
    and cs: "lua_checkstack h 4"
    and bound: "int (hash_entry_count h t) \<le> (case maxn_arg of None \<Rightarrow> 4294967295 | Some m \<Rightarrow> m)"
  shows "tablehash ref (DUserdata p) maxn_arg h =
           Inr ([DTable (array_of (concat (map (entry_items ref p) (hash_entries h t))))], h)"
proof -
  let ?maxn = "case maxn_arg of None \<Rightarrow> 4294967295 | Some m \<Rightarrow> m"
  let ?B = "bucket_entries h t 0 (hash_size h t)"
  let ?h1 = "h\<lparr>stack := LTable t # stack h\<rparr>"
  have cs3: "lua_checkstack h 3" using cs by (simp add: lua_checkstack_def)
  have b1: "int (length ?B) \<le> ?maxn"
    using bound by (simp add: hash_entry_count_def hash_entries_def)
  have loop: "tablehash_loop ref t (hash_size h t) 0 ?maxn 0 [DTable [], DUserdata p] ?h1 =
      (False, ?maxn - int (length ?B), int (length (concat (map (entry_items ref p) ?B))),
       [DTable (array_of (concat (map (entry_items ref p) ?B))), DUserdata p], ?h1)"
    using tablehash_loop_array [OF b1, of ref "[]" p "LTable t # stack h"]
    by (simp add: array_of_def)
  show ?thesis
  proof (cases "tzero (the_table h t)")
    case None
    then have "hash_entries h t = ?B" by (simp add: hash_entries_def zero_entries_def)
    with None ev cs cs3 loop show ?thesis
      by (simp add: tablehash_def copy_fromR_path get_zero_stack Let_def)
  next
    case (Some kv)
    obtain k v where kv: "kv = (k, v)" by (cases kv)
    with Some have he: "hash_entries h t = ?B @ [(int (hash_size h t), k, v)]"
      by (simp add: hash_entries_def zero_entries_def)
    with bound have m: "\<not> ?maxn - int (length ?B) - 1 < 0"
      by (simp add: hash_entry_count_def)
    from Some kv ev cs cs3 loop m show ?thesis
      by (simp add: tablehash_def copy_fromR_path get_zero_stack Let_def he
          tablehash_entry_array [of ref _ "concat (map (entry_items ref p) ?B)", simplified])
  qed
qed

lemma length_entries:
  "length (concat (map (entry_items ref p) es)) = (if ref then 3 else 2) * length es"
  by (induction es) (simp_all add: entry_items_def)

lemma distinct_bucket_entries: "distinct (map fst (bucket_entries h t i hsize))"
  and fst_bucket_entries: "\<forall>j \<in> fst ` set (bucket_entries h t i hsize). j < int hsize"
proof -
  have d: "distinct (map fst (concat (map (\<lambda>j. case bucket h t (int j) of Some (k, v) \<Rightarrow> [(int j, k, v)] | None \<Rightarrow> []) js)))
     \<and> fst ` set (concat (map (\<lambda>j. case bucket h t (int j) of Some (k, v) \<Rightarrow> [(int j, k, v)] | None \<Rightarrow> []) js)) \<subseteq> int ` set js"
    if "distinct js" for js
    using that by (induction js) (auto split: option.splits)
  from d [of "[i..<hsize]"] show "distinct (map fst (bucket_entries h t i hsize))"
    by (simp add: bucket_entries_def)
  from d [of "[i..<hsize]"] show "\<forall>j \<in> fst ` set (bucket_entries h t i hsize). j < int hsize"
    by (auto simp: bucket_entries_def)
qed

lemma distinct_hash_entries: "distinct (map fst (hash_entries h t))"
  using distinct_bucket_entries [of h t 0 "hash_size h t"] fst_bucket_entries [of h t 0 "hash_size h t"]
  by (auto simp: hash_entries_def zero_entries_def split: option.splits)

lemma example_ev_t:
  "eval_value example_host (FRAME_LOCAL 0 2)
      = (LUA_TTABLE, example_host\<lparr>stack := LTable 1 # stack example_host\<rparr>)"
  using example_local_t by simp

lemma example_entries: "hash_entries example_host (Suc 0) = [(1, LStr ''a'', LInt 1)]"
  by (simp add: hash_entries_def bucket_entries_def zero_entries_def hash_size_def bucket_def
      the_table_def upt_conv_Cons)

section \<open>The options of the frame information\<close>

lemma c_str_length: "length (c_str s) \<le> length s"
  by (simp add: c_str_def length_takeWhile_le)

lemma what_buffer_Some:
  "length (c_str options) < 7 \<Longrightarrow> what_buffer options = Some (CHR ''>'' # c_str options)"
  by (simp add: what_buffer_def)

lemma what_buffer_None:
  "7 \<le> length (c_str options) \<Longrightarrow> what_buffer options = None"
  by (simp add: what_buffer_def)

lemma scan_options_f:
  "scan_options cs False 0 = Some (False, sz) \<Longrightarrow> set cs \<subseteq> set ''Slnutr''"
proof -
  assume a: "scan_options cs False 0 = Some (False, sz)"
  then have nf: "CHR ''f'' \<notin> set cs" using scan_options_Some by fastforce
  from a have "\<not> (\<exists>c \<in> set cs. c \<notin> set ''Slnfutr'')"
    using scan_options_None [of cs False 0] by simp
  with nf show ?thesis by auto
qed

lemma example_ev_f_fst: "fst (eval_value example_host (FRAME_LOCAL 0 3)) = LUA_TFUNCTION"
  using example_local_f by simp

text \<open>Seven letters with a function path: one byte more than the buffer holds.\<close>

lemma getinfo_overrun_example:
  "lclient_getinfo (DUserdata (FRAME_LOCAL 0 3)) ''Slnutrl'' example_host = Overrun"
  using example_local_f
  by (simp add: lclient_getinfo_def c_str_def copy_fromR_path what_buffer_def del: eval_value.simps)

lemma flt_tointeger_examples:
  "flt_tointeger 0x3FF0000000000000 = Some 1"
  "flt_tointeger 0x4000000000000000 = Some 2"
  "flt_tointeger 0x3FF8000000000000 = None"
  "flt_tointeger 0xC008000000000000 = Some (- 3)"
  "flt_tointeger 0x7FF0000000000000 = None"
  "flt_tointeger 0 = Some 0"
  by (simp_all add: flt_tointeger_def Let_def)

text \<open>A float with an integer value is a stack level: 0.0 is frame 0.\<close>

lemma getinfo_float_level_example:
  "lclient_getinfo (DFlt 0) ''l'' example_host = Returned (Some [''currentline'']) example_host"
  by (simp add: lclient_getinfo_def luadbgL_checkinteger_def flt_tointeger_def c_str_def int_cast_def
      lua_getstack_def lua_getinfo_def)

section \<open>Assigning nil where the target exists\<close>

lemma node_find_absent: "k \<notin> set (node_keys xs) \<Longrightarrow> node_find k xs = None"
  by (induction xs rule: node_keys.induct) auto

lemma node_keys_clear: "set (node_keys (xs[i := None])) \<subseteq> set (node_keys xs)"
proof (induction xs arbitrary: i rule: node_keys.induct)
  case 1
  then show ?case by simp
next
  case (2 es)
  then show ?case by (cases i) auto
next
  case (3 k v es)
  then show ?case by (cases i) auto
qed

lemma node_find_cleared:
  "node_find k xs = Some i \<Longrightarrow> distinct (node_keys xs) \<Longrightarrow> node_find k (xs[i := None]) = None"
proof (induction xs arbitrary: i rule: node_keys.induct)
  case 1
  then show ?case by simp
next
  case (2 es)
  then show ?case by (cases i) auto
next
  case (3 k' v es)
  show ?case
  proof (cases "k' = k")
    case True
    with 3 have "i = 0" by simp
    with 3 True show ?thesis by (simp add: node_find_absent)
  next
    case False
    with 3 obtain j where "i = Suc j" "node_find k es = Some j" by auto
    with 3 False show ?thesis by simp
  qed
qed

lemma in_array_tnode [simp]: "in_array (t\<lparr>tnode := x\<rparr>) k = in_array t k"
  by (simp add: in_array_def split: lua_value.splits)

lemma luaH_get_set_nil:
  assumes "distinct (node_keys (tnode t))"
  shows "luaH_get (luaH_set t k LNil) k = LNil"
proof (cases "in_array t k")
  case True
  then show ?thesis
    by (auto simp: luaH_get_def luaH_set_def in_array_def array_pos_def split: lua_value.splits)
next
  case False
  show ?thesis
  proof (cases "node_find k (tnode t)")
    case None
    with False show ?thesis by (simp add: luaH_get_def luaH_set_def)
  next
    case (Some i)
    with False node_find_cleared [OF Some assms] show ?thesis
      by (simp add: luaH_get_def luaH_set_def)
  qed
qed

lemma denoted_eval:
  assumes "denoted g v = Some x"
  shows "eval_value g v = (ttype x, g\<lparr>stack := x # stack g\<rparr>)"
proof -
  obtain t h1 where e: "eval_value g v = (t, h1)" by (cases "eval_value g v")
  with assms have t: "t \<noteq> LUA_TNONE" by (auto simp: denoted_def split: if_splits)
  from eval_value_success [OF e t] obtain y where "h1 = g\<lparr>stack := y # stack g\<rparr>" "ttype y = t"
    by blast
  with assms e t show ?thesis by (simp add: denoted_def)
qed

lemma denoted_eval_upd:
  assumes "denoted (h\<lparr>stack := s\<rparr>) v = Some x"
  shows "eval_value (h\<lparr>stack := s\<rparr>) v = (ttype x, h\<lparr>stack := x # s\<rparr>)"
  using denoted_eval [OF assms] by simp

lemma lua_pushvalue_m3 [simp]:
  "lua_pushvalue (- 3) (h\<lparr>stack := a # b # c # s\<rparr>) = h\<lparr>stack := c # a # b # c # s\<rparr>"
  by (simp add: lua_pushvalue_def)

lemma lua_rawset_m3 [simp]:
  "lua_rawset (- 3) (h\<lparr>stack := v # k # LTable a # s\<rparr>) =
     h\<lparr>stack := LTable a # s, tables := (tables h)(a \<mapsto> luaH_set (the_table h a) k v)\<rparr>"
  by (simp add: lua_rawset_def rawset_value_def)

lemma bucket_tables_stack [simp]: "bucket (h\<lparr>stack := s, tables := T\<rparr>) = bucket (h\<lparr>tables := T\<rparr>)"
  by (simp add: bucket_def the_table_def fun_eq_iff)

lemma assign_local_stored:
  assumes "locate (h\<lparr>stack := LNil # s\<rparr>) (FRAME_LOCAL frame n) = Some loc"
  shows "\<exists>h3. assign_value (FRAME_LOCAL frame n) (h\<lparr>stack := LNil # s\<rparr>) = (1, h3)
           \<and> read_location h3 loc = LNil \<and> stack h3 = s"
proof -
  from assms obtain ar name sl where gs: "lua_getstack h (int frame) = Some ar"
    and fl: "findlocal (frames h ! ar) n = Some (name, sl)" and loc: "loc = LocLocal ar sl"
    by (auto split: option.splits)
  have ar: "ar < length (frames h)"
    using gs by (auto simp: lua_getstack_def split: if_splits)
  show ?thesis using gs fl ar loc
    by (simp add: lua_setlocal_def read_location_def slot_value_update [OF fl])
qed

lemma assign_field_stored:
  assumes d: "denoted (h\<lparr>stack := LNil # s\<rparr>) inner = Some (LTable a)"
    and wf: "distinct (node_keys (tnode (the_table h a)))"
  shows "\<exists>h3. assign_index key (1 + int (length s)) (eval_value (h\<lparr>stack := LNil # s\<rparr>) inner) = (1, h3)
           \<and> read_location h3 (LocField a key) = LNil \<and> stack h3 = s"
  using denoted_eval_upd [OF d] luaH_get_set_nil [OF wf, of key]
  by (simp add: assign_index_def Let_def read_location_def the_table_def lua_pop_def)

lemma assign_bucket_stored:
  assumes d: "denoted (h\<lparr>stack := LNil # s\<rparr>) inner = Some (LTable a)"
    and b: "bucket h a index = Some kv"
  shows "\<exists>h3. assign_value (INDEX_VAL index inner) (h\<lparr>stack := LNil # s\<rparr>) = (1, h3)
           \<and> read_location h3 (LocBucket a index) = LNil \<and> stack h3 = s"
proof -
  obtain k old where kv: "kv = (k, old)" by (cases kv)
  from b have rng: "0 \<le> index" "nat index < length (tnode (the_table h a))"
    by (auto simp: bucket_def split: if_splits)
  show ?thesis using denoted_eval_upd [OF d] b kv rng
    by (simp add: Let_def set_v_def table_addr_def read_location_def bucket_def the_table_def lua_pop_def)
qed

lemma assign_upvalue_stored:
  assumes d: "denoted (h\<lparr>stack := LNil # s\<rparr>) inner = Some (LFunc a)"
    and r: "1 \<le> index" "nat index \<le> length (upvals (the_closure h a))"
  shows "\<exists>h3. assign_value (UPVALUE index inner) (h\<lparr>stack := LNil # s\<rparr>) = (1, h3)
           \<and> read_location h3 (LocUpvalue a (nat index - 1)) = LNil \<and> stack h3 = s"
  using denoted_eval_upd [OF d] r
  by (simp add: Let_def lua_setupvalue_def read_location_def the_closure_def lua_pop_def)

lemma assign_metatable_stored:
  "\<exists>h3. assign_metatable (1 + int (length s)) (h\<lparr>stack := x # LNil # s\<rparr>) = (1, h3)
           \<and> read_location h3 (LocMeta x) = LNil \<and> stack h3 = s"
  by (cases x)
     (simp_all add: assign_metatable_def Let_def lua_setmetatable_def set_metatable_of_def
       read_location_def metatable_of_def the_table_def the_udata_def lua_pop_def)

lemma assign_uservalue_stored:
  assumes d: "denoted (h\<lparr>stack := LNil # s\<rparr>) inner = Some (LUdata a)"
    and r: "1 \<le> index" "nat index \<le> length (uvalues (the_udata h a))"
  shows "\<exists>h3. assign_value (USERVALUE index inner) (h\<lparr>stack := LNil # s\<rparr>) = (1, h3)
           \<and> read_location h3 (LocUservalue a (nat index - 1)) = LNil \<and> stack h3 = s"
  using denoted_eval_upd [OF d] r
  by (simp add: Let_def lua_setiuservalue_def read_location_def the_udata_def lua_pop_def)


lemma push_receiver_upd:
  "push_receiver t (h\<lparr>stack := s\<rparr>) = Some h1 \<Longrightarrow> \<exists>x. h1 = h\<lparr>stack := x # s\<rparr>"
  by (auto simp: push_receiver_def split: if_splits)

lemma assign_value_nil_stored:
  assumes loc: "locate (h\<lparr>stack := LNil # s\<rparr>) ref = Some loc"
    and wf: "location_wf h loc"
  shows "\<exists>h3. assign_value ref (h\<lparr>stack := LNil # s\<rparr>) = (1, h3)
           \<and> read_location h3 loc = LNil \<and> stack h3 = s"
proof (cases ref)
  case (FRAME_LOCAL frame n)
  with loc show ?thesis using assign_local_stored by simp
next
  case (INDEX_INT index inner)
  with loc obtain a where d: "denoted (h\<lparr>stack := LNil # s\<rparr>) inner = Some (LTable a)"
    and l: "loc = LocField a (LInt index)"
    by (auto split: option.splits lua_value.splits)
  from wf l have "distinct (node_keys (tnode (the_table h a)))" by (simp add: location_wf_def)
  from assign_field_stored [OF d this, of "LInt index"] INDEX_INT l show ?thesis by simp
next
  case (INDEX_STR key inner)
  with loc obtain a where d: "denoted (h\<lparr>stack := LNil # s\<rparr>) inner = Some (LTable a)"
    and l: "loc = LocField a (LStr key)"
    by (auto split: option.splits lua_value.splits)
  from wf l have "distinct (node_keys (tnode (the_table h a)))" by (simp add: location_wf_def)
  from assign_field_stored [OF d this, of "LStr key"] INDEX_STR l show ?thesis by simp
next
  case (INDEX_VAL index inner)
  with loc obtain a kv where d: "denoted (h\<lparr>stack := LNil # s\<rparr>) inner = Some (LTable a)"
    and b: "bucket h a index = Some kv" and l: "loc = LocBucket a index"
    by (auto split: option.splits lua_value.splits)
  from assign_bucket_stored [OF d b] INDEX_VAL l show ?thesis by simp
next
  case (UPVALUE index inner)
  with loc obtain a where d: "denoted (h\<lparr>stack := LNil # s\<rparr>) inner = Some (LFunc a)"
    and r: "1 \<le> index" "nat index \<le> length (upvals (the_closure h a))"
    and l: "loc = LocUpvalue a (nat index - 1)"
    by (auto split: option.splits lua_value.splits if_splits)
  from assign_upvalue_stored [OF d r] UPVALUE l show ?thesis by simp
next
  case (USERVALUE index inner)
  with loc obtain a where d: "denoted (h\<lparr>stack := LNil # s\<rparr>) inner = Some (LUdata a)"
    and r: "1 \<le> index" "nat index \<le> length (uvalues (the_udata h a))"
    and l: "loc = LocUservalue a (nat index - 1)"
    by (auto split: option.splits lua_value.splits if_splits)
  from assign_uservalue_stored [OF d r] USERVALUE l show ?thesis by simp
next
  case (METATABLE index inner)
  show ?thesis
  proof (cases "index \<noteq> LUA_TTABLE \<and> index \<noteq> LUA_TUSERDATA")
    case True
    with loc METATABLE obtain h1 where p: "push_receiver index (h\<lparr>stack := LNil # s\<rparr>) = Some h1"
      by (auto split: option.splits)
    from push_receiver_upd [OF p] obtain x where h1: "h1 = h\<lparr>stack := x # LNil # s\<rparr>" by blast
    with loc METATABLE True p have l: "loc = LocMeta x" by simp
    from assign_metatable_stored [where s = s and h = h and x = x] True METATABLE p h1 l show ?thesis by simp
  next
    case False
    with loc METATABLE obtain w x where i: "inner = Some w"
      and d: "denoted (h\<lparr>stack := LNil # s\<rparr>) w = Some x"
      and t: "ttype x = LUA_TTABLE \<or> ttype x = LUA_TUSERDATA" and l: "loc = LocMeta x"
      by (auto split: option.splits if_splits)
    from assign_metatable_stored [where s = s and h = h and x = x] denoted_eval_upd [OF d] False METATABLE i t l
    show ?thesis by auto
  qed
qed (use loc in simp_all)

lemma lclient_assign_nil_stored:
  assumes ev: "eval_value h vp = (LUA_TNONE, h1)"
    and cs: "lua_checkstack h 3"
    and cs1: "lua_checkstack (push LNil h1) 3"
    and loc: "locate (push LNil h1) ref = Some loc"
    and wf: "location_wf h loc"
  shows "\<exists>h3. lclient_assign (DUserdata ref) (DUserdata vp) h = Inr ([DBool True], h3)
           \<and> read_location h3 loc = LNil"
proof -
  from eval_value_shape [OF ev]
  have "h1 = h \<or> h1 = h\<lparr>stack := LNil # stack h\<rparr>" by simp
  then obtain s where p: "push LNil h1 = h\<lparr>stack := LNil # s\<rparr>"
    by (auto simp: push_def)
  from assign_value_nil_stored [OF loc [unfolded p] wf] obtain h3 where
    "assign_value ref (h\<lparr>stack := LNil # s\<rparr>) = (1, h3)" "read_location h3 loc = LNil" by blast
  with lclient_assign_unresolved [OF ev cs cs1, of ref] p show ?thesis by simp
qed

lemma assign_uservalue_missing:
  assumes d: "denoted (h\<lparr>stack := LNil # s\<rparr>) inner = Some (LUdata a)"
    and r: "\<not> (1 \<le> index \<and> nat index \<le> length (uvalues (the_udata h a)))"
  shows "assign_value (USERVALUE index inner) (h\<lparr>stack := LNil # s\<rparr>) = (1, h\<lparr>stack := s\<rparr>)"
  using denoted_eval_upd [OF d] r
  by (auto simp: Let_def lua_setiuservalue_def the_udata_def lua_pop_def)

lemma example_host_stack: "example_host\<lparr>stack := []\<rparr> = example_host"
  by (simp add: example_host_def)

text \<open>An unresolved new value, assigned to the field \<^verbatim>\<open>a\<close> of the table held by the
  local \<^verbatim>\<open>t\<close>: the field holds nil afterwards.\<close>

lemma lclient_assign_nil_stored_example:
  "\<exists>h3. lclient_assign (DUserdata (INDEX_STR ''a'' (FRAME_LOCAL 0 2))) (DUserdata (FRAME_LOCAL 5 1)) example_host
          = Inr ([DBool True], h3)
       \<and> luaH_get (the_table h3 1) (LStr ''a'') = LNil"
proof -
  have ev: "eval_value example_host (FRAME_LOCAL 5 1) = (LUA_TNONE, example_host)"
    by (simp add: lua_getstack_def)
  have cs: "lua_checkstack example_host 3" by simp
  have cs1: "lua_checkstack (push LNil example_host) 3"
    by (simp add: lua_checkstack_def push_def)
  have loc: "locate (push LNil example_host) (INDEX_STR ''a'' (FRAME_LOCAL 0 2)) = Some (LocField 1 (LStr ''a''))"
    by (simp add: push_def denoted_def lua_getstack_def lua_getlocal_def findlocal_def slot_value_def)
  have wf: "location_wf example_host (LocField 1 (LStr ''a''))"
    by (simp add: location_wf_def the_table_def)
  from lclient_assign_nil_stored [OF ev cs cs1 loc wf] show ?thesis
    by (simp add: read_location_def)
qed

section \<open>The claims\<close>

text \<open>
  C1. The path evaluator is to leave the host stack one value deeper when it returns a
  type and unchanged when it returns \<open>LUA_TNONE\<close>, for every step kind. The \<open>USERVALUE\<close>
  step breaks the second half: \<^verbatim>\<open>lua_getiuservalue\<close> pushes nil and returns \<open>LUA_TNONE\<close>
  for a slot the userdata does not have, and the evaluator returns that \<open>LUA_TNONE\<close> with
  the nil left in place of the userdata. On the example host, the path to user value 2
  of the local \<^verbatim>\<open>x\<close> (which has one user value) returns \<open>LUA_TNONE\<close> and leaves the
  stack one value deeper.
\<close>

theorem eval_value_uservalue_none_leaves_nil:
  "eval_value example_host (USERVALUE 2 (FRAME_LOCAL 0 1)) = (LUA_TNONE, example_host\<lparr>stack := [LNil]\<rparr>)
   \<and> length (stack (snd (eval_value example_host (USERVALUE 2 (FRAME_LOCAL 0 1)))))
       = length (stack example_host) + 1"
  by (simp add: lua_getstack_def lua_getlocal_def findlocal_def slot_value_def push_def
      lua_getiuservalue_def udata_uvalues_def the_udata_def)

text \<open>
  C2. \<^verbatim>\<open>assign_value\<close> is to leave the host stack at its starting depth minus 1 whether
  it succeeds or fails. A \<open>METATABLE\<close> step whose base type is neither table, userdata
  nor one of the five primitive types returns 0 at once, before
  \<^verbatim>\<open>lua_settop(cL, top - 1)\<close>: the value stays on the stack. Such a path is what
  \<^verbatim>\<open>getmetatable\<close> builds for a function.
\<close>

theorem assign_value_metatable_function_keeps_value:
  "assign_value (METATABLE LUA_TFUNCTION None) (example_host\<lparr>stack := [LInt 5]\<rparr>)
     = (0, example_host\<lparr>stack := [LInt 5]\<rparr>)"
  by (simp add: push_receiver_def)

text \<open>
  C3. \<^verbatim>\<open>gccount\<close> is to return \<open>(k << 10) + b\<close> for the Kbyte count \<open>k\<close> and the remainder
  \<open>b\<close>. The source combines the two with a bitwise AND: with 1025 bytes in use, \<open>k = 1\<close>
  and \<open>b = 1\<close>, it returns 0, not 1025.
\<close>

theorem lclient_gccount_example:
  "lclient_gccount example_host = DInt 0
   \<and> push_bit 10 (uint (lua_gc_count example_host)) + uint (lua_gc_countb example_host) = 1025"
  by (simp add: lclient_gccount_def lua_gc_count_def lua_gc_countb_def)

text \<open>
  C4. For a path \<open>v\<close> that resolves to the userdata \<open>a\<close>, a 64-bit offset \<open>off\<close> and a
  byte string \<open>data\<close>, \<^verbatim>\<open>udwrite(p, off, data, false)\<close> copies \<open>data\<close> into the memory of
  \<open>a\<close> at \<open>off\<close> and returns true if \<open>0 \<le> off\<close> and \<open>off + len(data) \<le> rawlen(p)\<close>, and
  otherwise returns nothing and leaves the host as it was: it succeeds if and only if the
  two bounds hold. The lengths are those of a host string and a host userdata (below
  \<open>2^63\<close> and \<open>2^64\<close>), and the host stack has room for the evaluation.
\<close>

theorem udwrite_succeeds_iff:
  assumes "eval_value h v = (LUA_TUSERDATA, h\<lparr>stack := LUdata a # stack h\<rparr>)"
    and "lua_checkstack h 3"
    and "length data < 2 ^ 63"
    and "length (umem h a) < 2 ^ 64"
  shows "((\<exists>h'. lclient_udwrite (DUserdata v) off data False h = Inr ([DBool True], h'))
            \<longleftrightarrow> 0 \<le> sint off \<and> sint off + int (length data) \<le> int (length (umem h a)))
     \<and> lclient_udwrite (DUserdata v) off data False h =
         (if 0 \<le> sint off \<and> sint off + int (length data) \<le> int (length (umem h a))
          then Inr ([DBool True],
                    h\<lparr>umem := (umem h)(a := memcpy (umem h a) (nat (sint off)) data (length data))\<rparr>)
          else Inr ([], h))"
  using udwrite_full_eq [OF assms, of off] by simp

theorem udwrite_succeeds_iff_witness:
  "lclient_udwrite (DUserdata (FRAME_LOCAL 0 1)) 1 ''zz'' False example_host
     = Inr ([DBool True], example_host\<lparr>umem := (umem example_host)(0 := ''azzd'')\<rparr>)
   \<and> lclient_udwrite (DUserdata (FRAME_LOCAL 0 1)) 3 ''zz'' False example_host
     = Inr ([], example_host)"
proof -
  have ev: "eval_value example_host (FRAME_LOCAL 0 1)
      = (LUA_TUSERDATA, example_host\<lparr>stack := LUdata 0 # stack example_host\<rparr>)"
    using example_local_x by simp
  have cs: "lua_checkstack example_host 3" by simp
  have ld: "length ''zz'' < 2 ^ 63" by simp
  have lm: "length (umem example_host 0) < 2 ^ 64" by simp
  from udwrite_succeeds_iff [OF ev cs ld lm, of 1] udwrite_succeeds_iff [OF ev cs ld lm, of 3]
  show ?thesis by (simp add: memcpy_def)
qed

text \<open>
  C9. For a path whose outermost step is \<open>FRAME_FUNC\<close>, \<open>GLOBAL\<close>, \<open>REGISTRY\<close>, \<open>STACK\<close> or
  \<open>INDEX_KEY\<close>, \<^verbatim>\<open>assign_value\<close> returns 0; the host it leaves is the one it found with
  the value on top of the stack popped: no frame, table, closure, userdata or metatable
  has changed.
\<close>

theorem assign_value_unsupported:
  "assign_value (FRAME_FUNC i) (h\<lparr>stack := x # s\<rparr>) = (0, h\<lparr>stack := s\<rparr>)
   \<and> assign_value GLOBAL (h\<lparr>stack := x # s\<rparr>) = (0, h\<lparr>stack := s\<rparr>)
   \<and> assign_value REGISTRY (h\<lparr>stack := x # s\<rparr>) = (0, h\<lparr>stack := s\<rparr>)
   \<and> assign_value (STACK i) (h\<lparr>stack := x # s\<rparr>) = (0, h\<lparr>stack := s\<rparr>)
   \<and> assign_value (INDEX_KEY i inner) (h\<lparr>stack := x # s\<rparr>) = (0, h\<lparr>stack := s\<rparr>)"
  using assign_fail_cons [where xs = "[x]"] by simp

theorem assign_value_unsupported_witness:
  "assign_value (INDEX_KEY 1 (FRAME_LOCAL 0 2)) (example_host\<lparr>stack := [LInt 5]\<rparr>) = (0, example_host)"
  using assign_value_unsupported [where i = 1 and h = example_host and x = "LInt 5" and s = "[]"
      and inner = "FRAME_LOCAL 0 2"]
  by (simp add: example_host_def)

text \<open>
  C5 (as stated). After a successful \<^verbatim>\<open>udwrite(p, off, data, false)\<close>,
  \<^verbatim>\<open>udread(p, off, len(data))\<close> is to return \<open>data\<close>. For the empty string this fails:
  the write succeeds, and the read, whose guard refuses a count \<open>\<le> 0\<close>, returns nothing
  rather than the empty string.
\<close>

theorem udread_after_empty_udwrite_counterexample:
  "lclient_udwrite (DUserdata (FRAME_LOCAL 0 1)) 0 [] False example_host
     = Inr ([DBool True], example_host)
   \<and> lclient_udread (DUserdata (FRAME_LOCAL 0 1)) 0 (word_of_nat (length ([] :: string))) example_host
     = Inr ([], example_host)"
proof -
  have cs: "lua_checkstack example_host 3" by simp
  have lm: "length (umem example_host 0) < 2 ^ 64" by simp
  have "memcpy ''abcd'' 0 [] 0 = ''abcd''" by (simp add: memcpy_def)
  moreover have "(umem example_host)(0 := ''abcd'') = umem example_host"
    by (simp add: fun_upd_idem)
  ultimately have wr: "lclient_udwrite (DUserdata (FRAME_LOCAL 0 1)) 0 [] False example_host
     = Inr ([DBool True], example_host)"
    using udwrite_full_eq [OF example_ev cs _ lm, of "[]" 0] by simp
  have rd: "lclient_udread (DUserdata (FRAME_LOCAL 0 1)) 0 (word_of_nat (length ([] :: string))) example_host
     = Inr ([], example_host)"
    using udread_eq [OF example_ev cs, of 0 0] by simp
  from wr rd show ?thesis by simp
qed

text \<open>
  C5 (amended). For a non-empty \<open>data\<close>: when \<^verbatim>\<open>udwrite(p, off, data, false)\<close> has
  succeeded, leaving the host \<open>h'\<close>, \<^verbatim>\<open>udread(p, off, len(data))\<close> on \<open>h'\<close> returns exactly
  \<open>data\<close> and leaves \<open>h'\<close> as it is.
\<close>

theorem udread_after_udwrite:
  assumes "eval_value h v = (LUA_TUSERDATA, h\<lparr>stack := LUdata a # stack h\<rparr>)"
    and "lua_checkstack h 3"
    and "length data < 2 ^ 63"
    and "length (umem h a) < 2 ^ 64"
    and "data \<noteq> []"
    and "lclient_udwrite (DUserdata v) off data False h = Inr ([DBool True], h')"
  shows "lclient_udread (DUserdata v) off (word_of_nat (length data)) h' = Inr ([DStr data], h')"
  using udread_after_write [OF assms] .

theorem udread_after_udwrite_witness:
  "lclient_udwrite (DUserdata (FRAME_LOCAL 0 1)) 1 ''zz'' False example_host
     = Inr ([DBool True], example_host\<lparr>umem := (umem example_host)(0 := ''azzd'')\<rparr>)
   \<and> lclient_udread (DUserdata (FRAME_LOCAL 0 1)) 1 2 (example_host\<lparr>umem := (umem example_host)(0 := ''azzd'')\<rparr>)
     = Inr ([DStr ''zz''], example_host\<lparr>umem := (umem example_host)(0 := ''azzd'')\<rparr>)"
proof -
  have cs: "lua_checkstack example_host 3" by simp
  have ld: "length ''zz'' < 2 ^ 63" by simp
  have lm: "length (umem example_host 0) < 2 ^ 64" by simp
  have wr: "lclient_udwrite (DUserdata (FRAME_LOCAL 0 1)) 1 ''zz'' False example_host
     = Inr ([DBool True], example_host\<lparr>umem := (umem example_host)(0 := ''azzd'')\<rparr>)"
    using udwrite_full_eq [OF example_ev cs ld lm, of 1] by (simp add: memcpy_def)
  from udread_after_udwrite [OF example_ev cs ld lm _ wr] wr show ?thesis by simp
qed

text \<open>
  C6 (as stated). \<^verbatim>\<open>udwrite(p, off, data, true)\<close> is to write
  \<open>min(len(data), max(0, rawlen(p) - off))\<close> bytes for every integer \<open>off\<close>. For
  \<open>off = -1\<close>, one byte of data and a userdata of four bytes that count is 1; the source
  refuses a negative offset, writes nothing and returns 0.
\<close>

theorem udwrite_partial_negative_offset_counterexample:
  "lclient_udwrite (DUserdata (FRAME_LOCAL 0 1)) (- 1) ''z'' True example_host = Inr ([DInt 0], example_host)
   \<and> min (int (length ''z'')) (max 0 (int (length (umem example_host 0)) - sint (- 1 :: 64 word))) = 1"
proof -
  have cs: "lua_checkstack example_host 3" by simp
  have ld: "length ''z'' < 2 ^ 63" by simp
  have lm: "length (umem example_host 0) < 2 ^ 63" by simp
  from udwrite_partial_eq [OF example_ev cs ld lm, of "- 1"] show ?thesis by simp
qed

text \<open>
  C6 (amended). For \<open>off \<ge> 0\<close>, \<^verbatim>\<open>udwrite(p, off, data, true)\<close> copies the first
  \<open>min(len(data), max(0, rawlen(p) - off))\<close> bytes of \<open>data\<close> to offset \<open>off\<close> and returns
  that count; for \<open>off < 0\<close> it writes nothing and returns 0.
\<close>

theorem udwrite_partial_count:
  assumes "eval_value h v = (LUA_TUSERDATA, h\<lparr>stack := LUdata a # stack h\<rparr>)"
    and "lua_checkstack h 3"
    and "length data < 2 ^ 63"
    and "length (umem h a) < 2 ^ 63"
  shows "lclient_udwrite (DUserdata v) off data True h =
     (if sint off < 0 then Inr ([DInt 0], h)
      else (let n = nat (min (int (length data)) (max 0 (int (length (umem h a)) - sint off)))
            in Inr ([DInt (int n)],
                    h\<lparr>umem := (umem h)(a := memcpy (umem h a) (nat (sint off)) data n)\<rparr>)))"
  using udwrite_partial_eq [OF assms] .

theorem udwrite_partial_count_witness:
  "lclient_udwrite (DUserdata (FRAME_LOCAL 0 1)) 3 ''zz'' True example_host
     = Inr ([DInt 1], example_host\<lparr>umem := (umem example_host)(0 := ''abcz'')\<rparr>)"
proof -
  have cs: "lua_checkstack example_host 3" by simp
  have ld: "length ''zz'' < 2 ^ 63" by simp
  have lm: "length (umem example_host 0) < 2 ^ 63" by simp
  from udwrite_partial_count [OF example_ev cs ld lm, of 3] show ?thesis by (simp add: memcpy_def)
qed

text \<open>
  C10. When the new value given to \<^verbatim>\<open>assign\<close> is a path that does not evaluate
  (\<^verbatim>\<open>copy_fromR\<close> returns \<open>LUA_TNONE\<close>), \<^verbatim>\<open>lclient_assign\<close> raises no error and
  assigns nil in its place; an assignment that succeeds is to store that nil at its
  target. Here the target is the second user value of the userdata held by the local
  \<^verbatim>\<open>x\<close>, which has one user value, and the new value is a local of a frame that does
  not exist: \<^verbatim>\<open>lclient_assign\<close> returns true and the host is what it was, so nil is
  stored nowhere and the one user value is still 7. The branch \<^verbatim>\<open>USERVALUE\<close> of
  \<^verbatim>\<open>assign_value\<close> does not test what \<^verbatim>\<open>lua_setiuservalue\<close> returns, where the branches
  \<^verbatim>\<open>FRAME_LOCAL\<close>, \<^verbatim>\<open>UPVALUE\<close> and \<^verbatim>\<open>INDEX_VAL\<close> test their setter and fail. For every
  target that has a place in the host the nil is stored there:
  \<open>lclient_assign_nil_stored\<close>.
\<close>

theorem assign_unresolved_value_uservalue_missing_slot:
  "lclient_assign (DUserdata (USERVALUE 2 (FRAME_LOCAL 0 1))) (DUserdata (FRAME_LOCAL 5 1)) example_host
     = Inr ([DBool True], example_host)
   \<and> uvalues (the_udata example_host 0) = [LInt 7]"
proof -
  have ev: "eval_value example_host (FRAME_LOCAL 5 1) = (LUA_TNONE, example_host)"
    by (simp add: lua_getstack_def)
  have cs: "lua_checkstack example_host 3" by simp
  have cs1: "lua_checkstack (push LNil example_host) 3"
    by (simp add: lua_checkstack_def push_def)
  have p: "push LNil example_host = example_host\<lparr>stack := LNil # []\<rparr>"
    by (simp add: push_def)
  have d: "denoted (example_host\<lparr>stack := LNil # []\<rparr>) (FRAME_LOCAL 0 1) = Some (LUdata 0)"
    by (simp add: denoted_def lua_getstack_def lua_getlocal_def findlocal_def slot_value_def)
  have r: "\<not> (1 \<le> (2::int) \<and> nat 2 \<le> length (uvalues (the_udata example_host 0)))"
    by (simp add: the_udata_def)
  have a: "assign_value (USERVALUE 2 (FRAME_LOCAL 0 1)) (push LNil example_host) = (1, example_host)"
    unfolding p using assign_uservalue_missing [OF d r] by (simp only: example_host_stack)
  from lclient_assign_unresolved [OF ev cs cs1, of "USERVALUE 2 (FRAME_LOCAL 0 1)"] a
  show ?thesis by (simp add: the_udata_def)
qed

text \<open>
  C8 (as stated). \<^verbatim>\<open>getinfo\<close> is to raise an error whenever its options contain a
  letter outside \<^verbatim>\<open>Slnfutr\<close>. The source scans the options as a C string: of the two
  bytes NUL, \<^verbatim>\<open>x\<close> it sees none, and with a stack level it accepts them and returns a
  table with no field.
\<close>

theorem getinfo_letter_after_nul_counterexample:
  "lclient_getinfo (DInt 0) [CHR 0x00, CHR ''x''] example_host = Returned (Some []) example_host
   \<and> length [CHR 0x00, CHR ''x''] \<le> 7
   \<and> CHR ''x'' \<in> set [CHR 0x00, CHR ''x''] \<and> CHR ''x'' \<notin> set ''Slnfutr''"
  by (simp add: lclient_getinfo_def luadbgL_checkinteger_def c_str_def int_cast_def lua_getstack_def
      lua_getinfo_def)

text \<open>
  C8 (amended). With a first argument that is an integer stack level (an integer, or a
  float with an integer value) or a path that resolves to a function, \<^verbatim>\<open>getinfo\<close> raises an error if and only if its options are
  longer than 7 bytes, or contain before their first NUL byte a byte outside
  \<^verbatim>\<open>Slnfutr\<close>, or contain \<^verbatim>\<open>f\<close> before their first NUL byte while the first argument
  is a path; otherwise the options are accepted and the call returns. This leaves out
  one input: a path with options of seven letters of \<^verbatim>\<open>Slnutr\<close>, which are one byte
  more than the buffer \<^verbatim>\<open>what\<close> holds (\<open>getinfo_overrun_example\<close>). (With a path the
  host stack has room for its evaluation.)
\<close>

theorem getinfo_error_iff:
  assumes "(\<exists>i. a1 = DInt i)
     \<or> (\<exists>b i. a1 = DFlt b \<and> flt_tointeger b = Some i)
     \<or> (\<exists>p. a1 = DUserdata p \<and> fst (eval_value h p) = LUA_TFUNCTION \<and> lua_checkstack h 3
            \<and> \<not> (length (c_str options) = 7 \<and> set (c_str options) \<subseteq> set ''Slnutr''))"
  shows "((\<exists>e. lclient_getinfo a1 options h = Raised e) \<longleftrightarrow>
           (length options > 7
            \<or> (\<exists>c \<in> set (c_str options). c \<notin> set ''Slnfutr'')
            \<or> (CHR ''f'' \<in> set (c_str options) \<and> (\<exists>p. a1 = DUserdata p))))
     \<and> ((\<exists>e. lclient_getinfo a1 options h = Raised e)
           \<or> (\<exists>r h'. lclient_getinfo a1 options h = Returned r h'))"
proof (cases "length options > 7")
  case True
  then show ?thesis by (simp add: lclient_getinfo_def)
next
  case short: False
  show ?thesis
  proof (cases "scan_options (c_str options) False 0")
    case None
    then have "\<exists>c \<in> set (c_str options). c \<notin> set ''Slnfutr''"
      by (simp only: scan_options_None)
    with None short show ?thesis by (simp add: lclient_getinfo_def)
  next
    case (Some r)
    obtain hasf sz where r: "r = (hasf, sz)" by (cases r)
    from Some r have hf: "hasf = (CHR ''f'' \<in> set (c_str options))"
      using scan_options_Some by fastforce
    from Some have ok: "\<not> (\<exists>c \<in> set (c_str options). c \<notin> set ''Slnfutr'')"
      using scan_options_None [of "c_str options" False 0] by simp
    from assms consider
        (level) i where "luadbg_type a1 = LUA_TNUMBER" "luadbgL_checkinteger 1 a1 = Inr i"
          "\<not> (\<exists>p. a1 = DUserdata p)"
      | (path) p where "a1 = DUserdata p" "fst (eval_value h p) = LUA_TFUNCTION" "lua_checkstack h 3"
          "\<not> (length (c_str options) = 7 \<and> set (c_str options) \<subseteq> set ''Slnutr'')"
      by (auto simp: luadbgL_checkinteger_def)
    then show ?thesis
    proof cases
      case level
      with Some r short ok show ?thesis
        by (simp add: lclient_getinfo_def lua_getinfo_def split: option.splits)
    next
      case path
      note p = path(1,2,3) and fits = path(4)
      obtain h1 where e: "eval_value h p = (LUA_TFUNCTION, h1)"
        using p(2) by (cases "eval_value h p") simp
      show ?thesis
      proof (cases hasf)
        case True
        with Some r short ok p hf e show ?thesis
          by (simp add: lclient_getinfo_def copy_fromR_path)
      next
        case False
        with Some r have "scan_options (c_str options) False 0 = Some (False, sz)" by simp
        then have "set (c_str options) \<subseteq> set ''Slnutr''"
          by (rule scan_options_f)
        with fits short c_str_length [of options] have "length (c_str options) < 7" by simp
        then have wb: "what_buffer options = Some (CHR ''>'' # c_str options)"
          by (rule what_buffer_Some)
        from False Some r short ok p hf e wb show ?thesis
          by (simp add: lclient_getinfo_def copy_fromR_path lua_getinfo_func_def)
      qed
    qed
  qed
qed

theorem getinfo_error_iff_witness:
  "lclient_getinfo (DUserdata (FRAME_LOCAL 0 3)) ''Sf'' example_host = Raised InvalidOption
   \<and> lclient_getinfo (DInt 0) ''Sf'' example_host
       = Returned (Some [''source'', ''short_src'', ''linedefined'', ''lastlinedefined'', ''what'', ''func''])
           example_host
   \<and> lclient_getinfo (DUserdata (FRAME_LOCAL 0 3)) ''Slnutr'' example_host
       = Returned (Some [''source'', ''short_src'', ''linedefined'', ''lastlinedefined'', ''what'',
            ''currentline'', ''name'', ''namewhat'', ''nparams'', ''istailcall'', ''ftransfer'', ''ntransfer''])
           example_host"
proof -
  have d: "(\<exists>i. DUserdata (FRAME_LOCAL 0 3) = DInt i)
     \<or> (\<exists>b i. DUserdata (FRAME_LOCAL 0 3) = DFlt b \<and> flt_tointeger b = Some i)
     \<or> (\<exists>p. DUserdata (FRAME_LOCAL 0 3) = DUserdata p \<and> fst (eval_value example_host p) = LUA_TFUNCTION
           \<and> lua_checkstack example_host 3
           \<and> \<not> (length (c_str ''Sf'') = 7 \<and> set (c_str ''Sf'') \<subseteq> set ''Slnutr''))"
    using example_ev_f_fst by (simp add: c_str_def)
  have e: "\<exists>e. lclient_getinfo (DUserdata (FRAME_LOCAL 0 3)) ''Sf'' example_host = Raised e"
    using getinfo_error_iff [OF d] by (simp add: c_str_def)
  have r1: "lclient_getinfo (DUserdata (FRAME_LOCAL 0 3)) ''Sf'' example_host = Raised InvalidOption"
    using example_local_f by (simp add: lclient_getinfo_def c_str_def copy_fromR_path del: eval_value.simps)
  have r2: "lclient_getinfo (DInt 0) ''Sf'' example_host
       = Returned (Some [''source'', ''short_src'', ''linedefined'', ''lastlinedefined'', ''what'', ''func''])
           example_host"
    by (simp add: lclient_getinfo_def luadbgL_checkinteger_def c_str_def int_cast_def lua_getstack_def
        lua_getinfo_def push_def lua_pop_def)
  have r3: "lclient_getinfo (DUserdata (FRAME_LOCAL 0 3)) ''Slnutr'' example_host
       = Returned (Some [''source'', ''short_src'', ''linedefined'', ''lastlinedefined'', ''what'',
            ''currentline'', ''name'', ''namewhat'', ''nparams'', ''istailcall'', ''ftransfer'', ''ntransfer''])
           example_host"
    using example_local_f
    by (simp add: lclient_getinfo_def c_str_def copy_fromR_path what_buffer_def lua_getinfo_func_def
        del: eval_value.simps)
  from e r1 r2 r3 show ?thesis by simp
qed


text \<open>
  C7 (as stated). In the Ref form each entry is to fill three positions in the order
  key path, value path, value copy or path. On the example host the table \<^verbatim>\<open>{a = 1}\<close>
  comes back as the string \<^verbatim>\<open>a\<close> (the key is copied, being a primitive), the integer 1
  (the copy of the value) and then the path of the value.
\<close>

theorem tablehash_claimed_order_counterexample:
  "tablehash True (DUserdata (FRAME_LOCAL 0 2)) None example_host
     = Inr ([DTable [(1, DStr ''a''), (2, DInt 1), (3, DUserdata (INDEX_VAL 1 (FRAME_LOCAL 0 2)))]], example_host)
   \<and> tablehash True (DUserdata (FRAME_LOCAL 0 2)) None example_host
     \<noteq> Inr ([DTable (array_of (concat (map (claimed_ref_items (FRAME_LOCAL 0 2)) (hash_entries example_host 1))))],
            example_host)"
proof -
  have cs: "lua_checkstack example_host 4" by simp
  have b: "int (hash_entry_count example_host 1) \<le> (case None of None \<Rightarrow> 4294967295 | Some m \<Rightarrow> m)"
    by (simp add: hash_entry_count_def example_entries)
  from tablehash_eq [OF example_ev_t cs b, of True] show ?thesis
    by (simp add: example_entries entry_items_def claimed_ref_items_def key_item_def val_item_def
        array_of_def upt_conv_Cons)
qed

text \<open>
  C7 (amended). For a path \<open>p\<close> that resolves to the table \<open>t\<close>, and \<^verbatim>\<open>max_n\<close> absent or
  at least the number of entries of the hash part: \<^verbatim>\<open>tablehash\<close> returns a table whose
  positions 1, 2, ... hold, for each entry in bucket order, three consecutive values:
  key copy or path, value copy or path, value path; \<^verbatim>\<open>tablehashv\<close> gives each entry the
  first two. The host is left as it was found. The lengths are \<open>3 * hash_entry_count\<close> and
  \<open>2 * hash_entry_count\<close>, and the entries are those of pairwise different buckets: every
  key of the hash part appears exactly once.
\<close>

theorem tablehash_layout:
  assumes "eval_value h p = (LUA_TTABLE, h\<lparr>stack := LTable t # stack h\<rparr>)"
    and "lua_checkstack h 4"
    and "int (hash_entry_count h t) \<le> (case maxn_arg of None \<Rightarrow> 4294967295 | Some m \<Rightarrow> m)"
  shows "tablehash True (DUserdata p) maxn_arg h =
           Inr ([DTable (array_of (concat (map (entry_items True p) (hash_entries h t))))], h)
     \<and> tablehash False (DUserdata p) maxn_arg h =
           Inr ([DTable (array_of (concat (map (entry_items False p) (hash_entries h t))))], h)
     \<and> length (array_of (concat (map (entry_items True p) (hash_entries h t)))) = 3 * hash_entry_count h t
     \<and> length (array_of (concat (map (entry_items False p) (hash_entries h t)))) = 2 * hash_entry_count h t
     \<and> distinct (map fst (hash_entries h t))"
  using tablehash_eq [OF assms, of True] tablehash_eq [OF assms, of False]
  by (simp add: length_entries distinct_hash_entries hash_entry_count_def array_of_def)

theorem tablehash_layout_witness:
  "tablehash True (DUserdata (FRAME_LOCAL 0 2)) None example_host
     = Inr ([DTable [(1, DStr ''a''), (2, DInt 1), (3, DUserdata (INDEX_VAL 1 (FRAME_LOCAL 0 2)))]], example_host)
   \<and> tablehash False (DUserdata (FRAME_LOCAL 0 2)) None example_host
     = Inr ([DTable [(1, DStr ''a''), (2, DInt 1)]], example_host)"
proof -
  have cs: "lua_checkstack example_host 4" by simp
  have b: "int (hash_entry_count example_host 1) \<le> (case None of None \<Rightarrow> 4294967295 | Some m \<Rightarrow> m)"
    by (simp add: hash_entry_count_def example_entries)
  from tablehash_layout [OF example_ev_t cs b] show ?thesis
    by (simp add: example_entries entry_items_def key_item_def val_item_def array_of_def upt_conv_Cons)
qed


end
